theory Spec2Isabelle
  imports Main
begin

section \<open>Values exchanged with the model\<close>

text \<open>
  A Python \<^verbatim>\<open>float\<close> is either a finite binary fraction or one of the three special
  values; \<open>Finite m e\<close> stands for the number \<open>m * 2 ^ e\<close>.  The decoder of the standard
  library produces the special values from the tokens \<^verbatim>\<open>NaN\<close>, \<^verbatim>\<open>Infinity\<close> and
  \<^verbatim>\<open>-Infinity\<close>.
\<close>

datatype pyfloat = Finite int int | PosInf | NegInf | NaN

text \<open>
  What \<^verbatim>\<open>json.loads\<close> returns: \<^verbatim>\<open>None\<close>, a bool, an int, a float, a str, a list or a
  dict with string keys (kept in insertion order).  Characters are code points below 256.
\<close>

datatype json =
    JNull
  | JBool bool
  | JInt int
  | JFloat pyfloat
  | JStr string
  | JList "json list"
  | JDict "(string \<times> json) list"

text \<open>The exceptions that can leave the functions modelled here.\<close>

datatype exn =
    JSONDecodeError
  | ValidationError
  | ValueError
  | TypeError
  | OverflowError
  | OtherError

text \<open>
  The parts of the Python standard library and of pydantic that the repository calls but
  does not define are parameters of the model:
  \<^item> \<open>str_other\<close> is \<^verbatim>\<open>str\<close> on floats, lists and dicts;
  \<^item> \<open>lax_int\<close>, \<open>lax_float\<close> and \<open>lax_bool\<close> are pydantic's conversions of an input
    to an \<^verbatim>\<open>int\<close>, \<^verbatim>\<open>float\<close> and \<^verbatim>\<open>bool\<close> field; \<open>None\<close> is a validation error.
\<close>

record builtins =
  str_other :: "json \<Rightarrow> string"
  lax_int :: "json \<Rightarrow> int option"
  lax_float :: "json \<Rightarrow> pyfloat option"
  lax_bool :: "json \<Rightarrow> bool option"


section \<open>String operations of Python\<close>

definition NL :: char where
  "NL = CHR 0x0A"

text \<open>\<^verbatim>\<open>str.isspace\<close> on one character, for the code points below 256.\<close>

definition py_isspace :: "char \<Rightarrow> bool" where
  "py_isspace c \<longleftrightarrow>
     (of_char c :: nat) \<in> {9, 10, 11, 12, 13, 28, 29, 30, 31, 32, 133, 160}"

definition py_lstrip :: "string \<Rightarrow> string" where
  "py_lstrip s = dropWhile py_isspace s"

definition py_rstrip :: "string \<Rightarrow> string" where
  "py_rstrip s = rev (dropWhile py_isspace (rev s))"

definition py_strip :: "string \<Rightarrow> string" where
  "py_strip s = py_lstrip (py_rstrip s)"

definition startswith :: "string \<Rightarrow> string \<Rightarrow> bool" where
  "startswith s p \<longleftrightarrow> take (length p) s = p"

definition endswith :: "string \<Rightarrow> string \<Rightarrow> bool" where
  "endswith s p \<longleftrightarrow> length p \<le> length s \<and> drop (length s - length p) s = p"

text \<open>\<^verbatim>\<open>s.find(c)\<close> for a one-character needle: the first index, or \<open>-1\<close>.\<close>

definition py_find :: "string \<Rightarrow> char \<Rightarrow> int" where
  "py_find s c = (if c \<in> set s then int (length (takeWhile (\<lambda>x. x \<noteq> c) s)) else - 1)"


section \<open>The raw-text extractor\<close>

text \<open>
  Lines 106 to 112 of \<^verbatim>\<open>parse_json_from_model_text\<close> and lines 38 to 48 of
  \<^verbatim>\<open>_parse_json_safe\<close>, which are the same statements: the value of the local variable
  that is handed to \<^verbatim>\<open>json.loads\<close>.  \<^verbatim>\<open>t[i + 1:]\<close> is \<open>drop\<close>, \<^verbatim>\<open>t[:-3]\<close> is
  \<open>take (length t - 3)\<close>.
\<close>

definition strip_fences :: "string \<Rightarrow> string" where
  "strip_fences text =
     (let cleaned = py_strip text in
      if startswith cleaned ''```'' then
        (let first_fence_end = py_find cleaned NL;
             cleaned = (if first_fence_end \<noteq> - 1
                        then drop (nat (first_fence_end + 1)) cleaned else cleaned)
         in if endswith (py_rstrip cleaned) ''```''
            then take (length (py_rstrip cleaned) - 3) (py_rstrip cleaned)
            else cleaned)
      else cleaned)"

text \<open>
  \<^verbatim>\<open>json.loads\<close> is the argument \<open>loads\<close>: \<open>Inl JSONDecodeError\<close> is the exception
  both functions catch, any other \<open>Inl\<close> is an exception they let through.
\<close>

type_synonym decoder = "string \<Rightarrow> exn + json"

definition error_envelope :: "string \<Rightarrow> json" where
  "error_envelope cleaned =
     JDict [(''error'', JStr ''Invalid JSON output''), (''raw'', JStr cleaned)]"

definition parse_json_from_model_text :: "decoder \<Rightarrow> string \<Rightarrow> exn + json" where
  "parse_json_from_model_text loads text =
     (let cleaned = strip_fences text in
      case loads cleaned of
        Inr v \<Rightarrow> Inr v
      | Inl JSONDecodeError \<Rightarrow> Inr (error_envelope cleaned)
      | Inl e \<Rightarrow> Inl e)"

definition parse_json_safe :: "decoder \<Rightarrow> string \<Rightarrow> exn + json" where
  "parse_json_safe loads text =
     (let text = strip_fences text in
      case loads text of
        Inr v \<Rightarrow> Inr v
      | Inl JSONDecodeError \<Rightarrow> Inr (error_envelope text)
      | Inl e \<Rightarrow> Inl e)"

section \<open>Formatting numbers\<close>

definition digit_char :: "nat \<Rightarrow> char" where
  "digit_char d = char_of (48 + d)"

text \<open>The decimal digits of a natural number, most significant first.\<close>

function digits :: "nat \<Rightarrow> string" where
  "digits n = (if n < 10 then [digit_char n] else digits (n div 10) @ [digit_char (n mod 10)])"
  by pat_completeness auto
termination
  by (relation "measure id") auto

text \<open>\<^verbatim>\<open>str(n)\<close> for an int.\<close>

definition str_int :: "int \<Rightarrow> string" where
  "str_int n = (if n < 0 then CHR ''-'' # digits (nat (- n)) else digits (nat n))"

text \<open>
  The format specification \<^verbatim>\<open>{n:02d}\<close>: zeros are inserted after the sign until the
  whole field has two characters.
\<close>

definition fmt_02d :: "int \<Rightarrow> string" where
  "fmt_02d n =
     (let sign = (if n < 0 then [CHR ''-''] else []);
          body = digits (nat \<bar>n\<bar>)
      in sign @ replicate (2 - length sign - length body) CHR ''0'' @ body)"

text \<open>
  \<^verbatim>\<open>int(f)\<close> for a float: truncation towards zero; \<^verbatim>\<open>ValueError\<close> for NaN and
  \<^verbatim>\<open>OverflowError\<close> for an infinity.
\<close>

fun int_of_float :: "pyfloat \<Rightarrow> exn + int" where
  "int_of_float (Finite m e) =
     Inr (if 0 \<le> e then m * 2 ^ nat e else sgn m * (\<bar>m\<bar> div 2 ^ nat (- e)))"
| "int_of_float NaN = Inl ValueError"
| "int_of_float PosInf = Inl OverflowError"
| "int_of_float NegInf = Inl OverflowError"

text \<open>
  \<^verbatim>\<open>str(v)\<close>: the identity on a str, the decimal numeral of an int, the names of the
  constants, and the library's text for a float, a list or a dict.
\<close>

definition py_str :: "builtins \<Rightarrow> json \<Rightarrow> string" where
  "py_str L v =
     (case v of
        JStr s \<Rightarrow> s
      | JInt n \<Rightarrow> str_int n
      | JBool b \<Rightarrow> (if b then ''True'' else ''False'')
      | JNull \<Rightarrow> ''None''
      | _ \<Rightarrow> str_other L v)"

text \<open>\<^verbatim>\<open>sep.join(xs)\<close>.\<close>

fun join :: "string \<Rightarrow> string list \<Rightarrow> string" where
  "join sep [] = []"
| "join sep [x] = x"
| "join sep (x # y # ys) = x @ sep @ join sep (y # ys)"


section \<open>The report schema\<close>

text \<open>The classes of \<^verbatim>\<open>video_analysis_models.py\<close>, field by field.\<close>

(* The second field of EngagementMechanics is called "tactic" in the source.  That word names
   a proof method of Isabelle, so the field is tactic_used here and its key is spelled in
   two halves. *)

definition tactic_key :: string where
  "tactic_key = ''tac'' @ ''tic''"

record TechnicalSpecs =
  resolution :: "string option"
  fps :: "pyfloat option"
  audio_channels :: "int option"

record FileInfo =
  video_id :: "string option"
  filename :: "string option"
  processed_at :: "string option"
  duration_seconds :: "pyfloat option"
  technical_specs :: "TechnicalSpecs option"

record GlobalAnalysis =
  title_detected :: "string option"
  topics :: "string list"
  summary :: "string option"
  overall_sentiment :: "string option"
  dominant_language :: "string option"

record TimeRange =
  start :: string
  end' :: string

record Classification =
  type :: "string option"
  topic :: "string option"

record VisualSubject =
  label :: "string option"
  attributes :: "string list"
  action :: "string option"
  emotion :: "string option"

record VisualAnalysis =
  shot_type :: "string option"
  camera_movement :: "string option"
  main_subjects :: "VisualSubject list"
  environment :: "string option"

record AudioAnalysis =
  transcript :: "string option"
  speaker_id :: "string option"
  bg_music :: "string option"
  voice_intonation :: "string option"

record TextExtractionOCR =
  visible_text :: "string list"
  programming_language :: "string option"

record EngagementMechanics =
  is_hook :: bool
  tactic_used :: "string option"
  psychological_trigger :: "string option"

record IRReconstruction =
  abstract_concept :: "string option"
  generative_prompt :: "string option"

record GlobalViralityAnalysis =
  virality_score :: "int option"
  hook_strategy :: "string option"
  target_audience :: "string option"
  share_trigger :: "string option"

record TimelineSegment =
  segment_id :: "string option"
  time_range :: "TimeRange option"
  start :: "string option"
  end' :: "string option"
  classification :: "Classification option"
  visual_analysis :: "VisualAnalysis option"
  audio_analysis :: "AudioAnalysis option"
  text_extraction_ocr :: "TextExtractionOCR option"
  engagement_mechanics :: "EngagementMechanics option"
  ir_reconstruction :: "IRReconstruction option"

record ExtractedAction =
  action :: string
  timestamp :: string

record ExtractedEntities =
  actions_detected :: "ExtractedAction list"
  key_objects :: "string list"
  referenced_links :: "string list"

record AnalysisResult =
  file_info :: "FileInfo option"
  global_analysis :: "GlobalAnalysis option"
  global_virality :: "GlobalViralityAnalysis option"
  timeline_segments :: "TimelineSegment list"
  extracted_entities :: "ExtractedEntities option"


section \<open>The validators written in the repository\<close>

text \<open>\<^verbatim>\<open>GlobalViralityAnalysis._coerce_target_audience\<close>.\<close>

definition coerce_target_audience :: "builtins \<Rightarrow> json \<Rightarrow> json" where
  "coerce_target_audience L v =
     (case v of
        JList items \<Rightarrow> JStr (join '', '' (map (py_str L) items))
      | _ \<Rightarrow> v)"

text \<open>
  Lines 103 to 111 of \<^verbatim>\<open>_seconds_to_time_string\<close>; \<^verbatim>\<open>//\<close> and \<^verbatim>\<open>%\<close> round towards
  minus infinity, as \<open>div\<close> and \<open>mod\<close> do.
\<close>

definition time_string :: "int \<Rightarrow> string" where
  "time_string total_seconds =
     (let hours = total_seconds div 3600;
          minutes = (total_seconds mod 3600) div 60;
          secs = total_seconds mod 60
      in if hours > 0
         then fmt_02d hours @ '':'' @ fmt_02d minutes @ '':'' @ fmt_02d secs
         else fmt_02d minutes @ '':'' @ fmt_02d secs)"

text \<open>
  \<^verbatim>\<open>_seconds_to_time_string\<close>, one equation for each type of argument: a str is returned
  as it is, \<^verbatim>\<open>int(seconds)\<close> is the value of an int or bool, the truncation of a float,
  and a \<^verbatim>\<open>TypeError\<close> for \<^verbatim>\<open>None\<close>, a list or a dict.
\<close>

fun seconds_to_time_string :: "json \<Rightarrow> exn + string" where
  "seconds_to_time_string (JStr s) = Inr s"
| "seconds_to_time_string (JInt n) = Inr (time_string n)"
| "seconds_to_time_string (JBool b) = Inr (time_string (if b then 1 else 0))"
| "seconds_to_time_string (JFloat f) =
     (case int_of_float f of Inl e \<Rightarrow> Inl e | Inr n \<Rightarrow> Inr (time_string n))"
| "seconds_to_time_string JNull = Inl TypeError"
| "seconds_to_time_string (JList xs) = Inl TypeError"
| "seconds_to_time_string (JDict d) = Inl TypeError"

text \<open>\<^verbatim>\<open>TimelineSegment._coerce_segment_id\<close>.\<close>

definition coerce_segment_id :: "builtins \<Rightarrow> json \<Rightarrow> json" where
  "coerce_segment_id L v = (if v = JNull then JNull else JStr (py_str L v))"

text \<open>\<^verbatim>\<open>TimelineSegment._coerce_text_extraction_ocr\<close>.\<close>

definition coerce_text_extraction_ocr :: "json \<Rightarrow> json" where
  "coerce_text_extraction_ocr v =
     (if v = JNull then JNull
      else case v of
        JList xs \<Rightarrow> (if length xs = 0 then JNull else JDict [(''visible_text'', v)])
      | _ \<Rightarrow> v)"

text \<open>\<^verbatim>\<open>TimelineSegment._convert_time_to_string\<close>.\<close>

definition convert_time_to_string :: "json \<Rightarrow> exn + json" where
  "convert_time_to_string v =
     (if v = JNull then Inr JNull
      else case v of
        JStr s \<Rightarrow> Inr v
      | _ \<Rightarrow> (case seconds_to_time_string v of Inl e \<Rightarrow> Inl e | Inr s \<Rightarrow> Inr (JStr s)))"

text \<open>\<^verbatim>\<open>TimelineSegment._coerce_time_range\<close>, which runs on the validated segment.\<close>

definition coerce_time_range :: "TimelineSegment \<Rightarrow> TimelineSegment" where
  "coerce_time_range self =
     (if time_range self = None \<and> TimelineSegment.start self \<noteq> None
         \<and> TimelineSegment.end' self \<noteq> None
      then self\<lparr>time_range :=
             Some \<lparr>TimeRange.start = the (TimelineSegment.start self),
                   TimeRange.end' = the (TimelineSegment.end' self)\<rparr>\<rparr>
      else self)"

section \<open>Validation by pydantic\<close>

text \<open>
  What validating one value gives: the converted value, a validation error (which pydantic
  collects and reports as \<^verbatim>\<open>ValidationError\<close> when the whole model has been visited), or
  an exception of another class raised by a validator function, which leaves
  \<^verbatim>\<open>model_validate\<close> at once.
\<close>

datatype 'a outcome = Valid 'a | Invalid | Raised exn

text \<open>
  Fields are validated in the order of their declaration.  A validation error does not
  stop the visit, so an exception raised for a later field still wins over it.
\<close>

fun ap :: "('a \<Rightarrow> 'b) outcome \<Rightarrow> 'a outcome \<Rightarrow> 'b outcome" where
  "ap (Raised e) x = Raised e"
| "ap Invalid (Raised e) = Raised e"
| "ap Invalid x = Invalid"
| "ap (Valid f) (Raised e) = Raised e"
| "ap (Valid f) Invalid = Invalid"
| "ap (Valid f) (Valid x) = Valid (f x)"

fun collect :: "'a outcome list \<Rightarrow> 'a list outcome" where
  "collect [] = Valid []"
| "collect (x # xs) = ap (ap (Valid (#)) x) (collect xs)"

text \<open>A \<^verbatim>\<open>str\<close> field takes a str and nothing else that JSON can hold.\<close>

definition v_str :: "json \<Rightarrow> string outcome" where
  "v_str v = (case v of JStr s \<Rightarrow> Valid s | _ \<Rightarrow> Invalid)"

definition v_int :: "builtins \<Rightarrow> json \<Rightarrow> int outcome" where
  "v_int L v = (case lax_int L v of Some n \<Rightarrow> Valid n | None \<Rightarrow> Invalid)"

definition v_float :: "builtins \<Rightarrow> json \<Rightarrow> pyfloat outcome" where
  "v_float L v = (case lax_float L v of Some f \<Rightarrow> Valid f | None \<Rightarrow> Invalid)"

definition v_bool :: "builtins \<Rightarrow> json \<Rightarrow> bool outcome" where
  "v_bool L v = (case lax_bool L v of Some b \<Rightarrow> Valid b | None \<Rightarrow> Invalid)"

text \<open>\<^verbatim>\<open>Optional[T]\<close>.\<close>

definition v_optional :: "(json \<Rightarrow> 'a outcome) \<Rightarrow> json \<Rightarrow> 'a option outcome" where
  "v_optional inner v = (if v = JNull then Valid None else ap (Valid Some) (inner v))"

text \<open>\<^verbatim>\<open>List[T]\<close>.\<close>

definition v_list :: "(json \<Rightarrow> 'a outcome) \<Rightarrow> json \<Rightarrow> 'a list outcome" where
  "v_list inner v = (case v of JList xs \<Rightarrow> collect (map inner xs) | _ \<Rightarrow> Invalid)"

text \<open>
  A model takes a dict; the keys that name no field are ignored, which is pydantic's
  default (no class of the repository sets \<^verbatim>\<open>model_config\<close>).
\<close>

definition v_model :: "((string \<times> json) list \<Rightarrow> 'a outcome) \<Rightarrow> json \<Rightarrow> 'a outcome" where
  "v_model of_dict v = (case v of JDict d \<Rightarrow> of_dict d | _ \<Rightarrow> Invalid)"

text \<open>A field with a default: the validators run only when the key is present.\<close>

definition field :: "(string \<times> json) list \<Rightarrow> string \<Rightarrow> 'a \<Rightarrow> (json \<Rightarrow> 'a outcome) \<Rightarrow> 'a outcome"
  where
  "field d key dflt validate = (case map_of d key of None \<Rightarrow> Valid dflt | Some v \<Rightarrow> validate v)"

text \<open>A field without a default.\<close>

definition required :: "(string \<times> json) list \<Rightarrow> string \<Rightarrow> (json \<Rightarrow> 'a outcome) \<Rightarrow> 'a outcome"
  where
  "required d key validate = (case map_of d key of None \<Rightarrow> Invalid | Some v \<Rightarrow> validate v)"

text \<open>
  \<^verbatim>\<open>field_validator(..., mode="before")\<close>: the function sees the raw input, and the
  validation of the field's type sees what it returns.  A \<^verbatim>\<open>ValueError\<close> raised by the
  function is a validation error; other exceptions are not caught.
\<close>

definition before :: "(json \<Rightarrow> exn + json) \<Rightarrow> (json \<Rightarrow> 'a outcome) \<Rightarrow> json \<Rightarrow> 'a outcome" where
  "before f inner v =
     (case f v of
        Inr v' \<Rightarrow> inner v'
      | Inl ValueError \<Rightarrow> Invalid
      | Inl e \<Rightarrow> Raised e)"

text \<open>\<^verbatim>\<open>model_validator(mode="after")\<close>: the function sees the instance once its fields are valid.\<close>

definition after :: "('a \<Rightarrow> 'a) \<Rightarrow> 'a outcome \<Rightarrow> 'a outcome" where
  "after f r = ap (Valid f) r"

definition validate_TechnicalSpecs :: "builtins \<Rightarrow> json \<Rightarrow> TechnicalSpecs outcome" where
  "validate_TechnicalSpecs L =
     v_model (\<lambda>d.
       ap (ap (ap (Valid TechnicalSpecs.make)
         (field d ''resolution'' None (v_optional v_str)))
         (field d ''fps'' None (v_optional (v_float L))))
         (field d ''audio_channels'' None (v_optional (v_int L))))"

definition validate_FileInfo :: "builtins \<Rightarrow> json \<Rightarrow> FileInfo outcome" where
  "validate_FileInfo L =
     v_model (\<lambda>d.
       ap (ap (ap (ap (ap (Valid FileInfo.make)
         (field d ''video_id'' None (v_optional v_str)))
         (field d ''filename'' None (v_optional v_str)))
         (field d ''processed_at'' None (v_optional v_str)))
         (field d ''duration_seconds'' None (v_optional (v_float L))))
         (field d ''technical_specs'' None (v_optional (validate_TechnicalSpecs L))))"

definition validate_GlobalAnalysis :: "json \<Rightarrow> GlobalAnalysis outcome" where
  "validate_GlobalAnalysis =
     v_model (\<lambda>d.
       ap (ap (ap (ap (ap (Valid GlobalAnalysis.make)
         (field d ''title_detected'' None (v_optional v_str)))
         (field d ''topics'' [] (v_list v_str)))
         (field d ''summary'' None (v_optional v_str)))
         (field d ''overall_sentiment'' None (v_optional v_str)))
         (field d ''dominant_language'' None (v_optional v_str)))"

definition validate_TimeRange :: "json \<Rightarrow> TimeRange outcome" where
  "validate_TimeRange =
     v_model (\<lambda>d.
       ap (ap (Valid TimeRange.make)
         (required d ''start'' v_str))
         (required d ''end'' v_str))"

definition validate_Classification :: "json \<Rightarrow> Classification outcome" where
  "validate_Classification =
     v_model (\<lambda>d.
       ap (ap (Valid Classification.make)
         (field d ''type'' None (v_optional v_str)))
         (field d ''topic'' None (v_optional v_str)))"

definition validate_VisualSubject :: "json \<Rightarrow> VisualSubject outcome" where
  "validate_VisualSubject =
     v_model (\<lambda>d.
       ap (ap (ap (ap (Valid VisualSubject.make)
         (field d ''label'' None (v_optional v_str)))
         (field d ''attributes'' [] (v_list v_str)))
         (field d ''action'' None (v_optional v_str)))
         (field d ''emotion'' None (v_optional v_str)))"

definition validate_VisualAnalysis :: "json \<Rightarrow> VisualAnalysis outcome" where
  "validate_VisualAnalysis =
     v_model (\<lambda>d.
       ap (ap (ap (ap (Valid VisualAnalysis.make)
         (field d ''shot_type'' None (v_optional v_str)))
         (field d ''camera_movement'' None (v_optional v_str)))
         (field d ''main_subjects'' [] (v_list validate_VisualSubject)))
         (field d ''environment'' None (v_optional v_str)))"

definition validate_AudioAnalysis :: "json \<Rightarrow> AudioAnalysis outcome" where
  "validate_AudioAnalysis =
     v_model (\<lambda>d.
       ap (ap (ap (ap (Valid AudioAnalysis.make)
         (field d ''transcript'' None (v_optional v_str)))
         (field d ''speaker_id'' None (v_optional v_str)))
         (field d ''bg_music'' None (v_optional v_str)))
         (field d ''voice_intonation'' None (v_optional v_str)))"

definition validate_TextExtractionOCR :: "json \<Rightarrow> TextExtractionOCR outcome" where
  "validate_TextExtractionOCR =
     v_model (\<lambda>d.
       ap (ap (Valid TextExtractionOCR.make)
         (field d ''visible_text'' [] (v_list v_str)))
         (field d ''programming_language'' None (v_optional v_str)))"

definition validate_EngagementMechanics :: "builtins \<Rightarrow> json \<Rightarrow> EngagementMechanics outcome"
  where
  "validate_EngagementMechanics L =
     v_model (\<lambda>d.
       ap (ap (ap (Valid EngagementMechanics.make)
         (field d ''is_hook'' False (v_bool L)))
         (field d tactic_key None (v_optional v_str)))
         (field d ''psychological_trigger'' None (v_optional v_str)))"

definition validate_IRReconstruction :: "json \<Rightarrow> IRReconstruction outcome" where
  "validate_IRReconstruction =
     v_model (\<lambda>d.
       ap (ap (Valid IRReconstruction.make)
         (field d ''abstract_concept'' None (v_optional v_str)))
         (field d ''generative_prompt'' None (v_optional v_str)))"

definition validate_GlobalViralityAnalysis :: "builtins \<Rightarrow> json \<Rightarrow> GlobalViralityAnalysis outcome"
  where
  "validate_GlobalViralityAnalysis L =
     v_model (\<lambda>d.
       ap (ap (ap (ap (Valid GlobalViralityAnalysis.make)
         (field d ''virality_score'' None (v_optional (v_int L))))
         (field d ''hook_strategy'' None (v_optional v_str)))
         (field d ''target_audience'' None
            (before (\<lambda>v. Inr (coerce_target_audience L v)) (v_optional v_str))))
         (field d ''share_trigger'' None (v_optional v_str)))"

definition validate_TimelineSegment :: "builtins \<Rightarrow> json \<Rightarrow> TimelineSegment outcome" where
  "validate_TimelineSegment L =
     v_model (\<lambda>d. after coerce_time_range
       (ap (ap (ap (ap (ap (ap (ap (ap (ap (ap (Valid TimelineSegment.make)
         (field d ''segment_id'' None
            (before (\<lambda>v. Inr (coerce_segment_id L v)) (v_optional v_str))))
         (field d ''time_range'' None (v_optional validate_TimeRange)))
         (field d ''start'' None (before convert_time_to_string (v_optional v_str))))
         (field d ''end'' None (before convert_time_to_string (v_optional v_str))))
         (field d ''classification'' None (v_optional validate_Classification)))
         (field d ''visual_analysis'' None (v_optional validate_VisualAnalysis)))
         (field d ''audio_analysis'' None (v_optional validate_AudioAnalysis)))
         (field d ''text_extraction_ocr'' None
            (before (\<lambda>v. Inr (coerce_text_extraction_ocr v))
               (v_optional validate_TextExtractionOCR))))
         (field d ''engagement_mechanics'' None (v_optional (validate_EngagementMechanics L))))
         (field d ''ir_reconstruction'' None (v_optional validate_IRReconstruction))))"

definition validate_ExtractedAction :: "json \<Rightarrow> ExtractedAction outcome" where
  "validate_ExtractedAction =
     v_model (\<lambda>d.
       ap (ap (Valid ExtractedAction.make)
         (required d ''action'' v_str))
         (required d ''timestamp'' v_str))"

definition validate_ExtractedEntities :: "json \<Rightarrow> ExtractedEntities outcome" where
  "validate_ExtractedEntities =
     v_model (\<lambda>d.
       ap (ap (ap (Valid ExtractedEntities.make)
         (field d ''actions_detected'' [] (v_list validate_ExtractedAction)))
         (field d ''key_objects'' [] (v_list v_str)))
         (field d ''referenced_links'' [] (v_list v_str)))"

definition validate_AnalysisResult :: "builtins \<Rightarrow> json \<Rightarrow> AnalysisResult outcome" where
  "validate_AnalysisResult L =
     v_model (\<lambda>d.
       ap (ap (ap (ap (ap (Valid AnalysisResult.make)
         (field d ''file_info'' None (v_optional (validate_FileInfo L))))
         (field d ''global_analysis'' None (v_optional validate_GlobalAnalysis)))
         (field d ''global_virality'' None (v_optional (validate_GlobalViralityAnalysis L))))
         (field d ''timeline_segments'' [] (v_list (validate_TimelineSegment L))))
         (field d ''extracted_entities'' None (v_optional validate_ExtractedEntities)))"

text \<open>
  \<^verbatim>\<open>AnalysisResult.model_validate(payload)\<close>, as both callers use it: the instance, or
  the exception that leaves the call.
\<close>

definition model_validate :: "builtins \<Rightarrow> json \<Rightarrow> exn + AnalysisResult" where
  "model_validate L payload =
     (case validate_AnalysisResult L payload of
        Valid r \<Rightarrow> Inr r
      | Invalid \<Rightarrow> Inl ValidationError
      | Raised e \<Rightarrow> Inl e)"

section \<open>Serialisation by pydantic\<close>

text \<open>
  \<^verbatim>\<open>model_dump()\<close>, which \<^verbatim>\<open>streamlit_app.py\<close> calls on the report: a dict with one
  entry for every field, in the order of declaration, nested models dumped in turn.
\<close>

definition dump_opt :: "('a \<Rightarrow> json) \<Rightarrow> 'a option \<Rightarrow> json" where
  "dump_opt f x = (case x of None \<Rightarrow> JNull | Some y \<Rightarrow> f y)"

definition dump_strs :: "string list \<Rightarrow> json" where
  "dump_strs xs = JList (map JStr xs)"

definition dump_TechnicalSpecs :: "TechnicalSpecs \<Rightarrow> json" where
  "dump_TechnicalSpecs r = JDict
     [(''resolution'', dump_opt JStr (resolution r)),
      (''fps'', dump_opt JFloat (fps r)),
      (''audio_channels'', dump_opt JInt (audio_channels r))]"

definition dump_FileInfo :: "FileInfo \<Rightarrow> json" where
  "dump_FileInfo r = JDict
     [(''video_id'', dump_opt JStr (video_id r)),
      (''filename'', dump_opt JStr (filename r)),
      (''processed_at'', dump_opt JStr (processed_at r)),
      (''duration_seconds'', dump_opt JFloat (duration_seconds r)),
      (''technical_specs'', dump_opt dump_TechnicalSpecs (technical_specs r))]"

definition dump_GlobalAnalysis :: "GlobalAnalysis \<Rightarrow> json" where
  "dump_GlobalAnalysis r = JDict
     [(''title_detected'', dump_opt JStr (title_detected r)),
      (''topics'', dump_strs (topics r)),
      (''summary'', dump_opt JStr (summary r)),
      (''overall_sentiment'', dump_opt JStr (overall_sentiment r)),
      (''dominant_language'', dump_opt JStr (dominant_language r))]"

definition dump_TimeRange :: "TimeRange \<Rightarrow> json" where
  "dump_TimeRange r = JDict
     [(''start'', JStr (TimeRange.start r)),
      (''end'', JStr (TimeRange.end' r))]"

definition dump_Classification :: "Classification \<Rightarrow> json" where
  "dump_Classification r = JDict
     [(''type'', dump_opt JStr (type r)),
      (''topic'', dump_opt JStr (topic r))]"

definition dump_VisualSubject :: "VisualSubject \<Rightarrow> json" where
  "dump_VisualSubject r = JDict
     [(''label'', dump_opt JStr (label r)),
      (''attributes'', dump_strs (attributes r)),
      (''action'', dump_opt JStr (VisualSubject.action r)),
      (''emotion'', dump_opt JStr (emotion r))]"

definition dump_VisualAnalysis :: "VisualAnalysis \<Rightarrow> json" where
  "dump_VisualAnalysis r = JDict
     [(''shot_type'', dump_opt JStr (shot_type r)),
      (''camera_movement'', dump_opt JStr (camera_movement r)),
      (''main_subjects'', JList (map dump_VisualSubject (main_subjects r))),
      (''environment'', dump_opt JStr (environment r))]"

definition dump_AudioAnalysis :: "AudioAnalysis \<Rightarrow> json" where
  "dump_AudioAnalysis r = JDict
     [(''transcript'', dump_opt JStr (transcript r)),
      (''speaker_id'', dump_opt JStr (speaker_id r)),
      (''bg_music'', dump_opt JStr (bg_music r)),
      (''voice_intonation'', dump_opt JStr (voice_intonation r))]"

definition dump_TextExtractionOCR :: "TextExtractionOCR \<Rightarrow> json" where
  "dump_TextExtractionOCR r = JDict
     [(''visible_text'', dump_strs (visible_text r)),
      (''programming_language'', dump_opt JStr (programming_language r))]"

definition dump_EngagementMechanics :: "EngagementMechanics \<Rightarrow> json" where
  "dump_EngagementMechanics r = JDict
     [(''is_hook'', JBool (is_hook r)),
      (tactic_key, dump_opt JStr (tactic_used r)),
      (''psychological_trigger'', dump_opt JStr (psychological_trigger r))]"

definition dump_IRReconstruction :: "IRReconstruction \<Rightarrow> json" where
  "dump_IRReconstruction r = JDict
     [(''abstract_concept'', dump_opt JStr (abstract_concept r)),
      (''generative_prompt'', dump_opt JStr (generative_prompt r))]"

definition dump_GlobalViralityAnalysis :: "GlobalViralityAnalysis \<Rightarrow> json" where
  "dump_GlobalViralityAnalysis r = JDict
     [(''virality_score'', dump_opt JInt (virality_score r)),
      (''hook_strategy'', dump_opt JStr (hook_strategy r)),
      (''target_audience'', dump_opt JStr (target_audience r)),
      (''share_trigger'', dump_opt JStr (share_trigger r))]"

definition dump_TimelineSegment :: "TimelineSegment \<Rightarrow> json" where
  "dump_TimelineSegment r = JDict
     [(''segment_id'', dump_opt JStr (segment_id r)),
      (''time_range'', dump_opt dump_TimeRange (time_range r)),
      (''start'', dump_opt JStr (TimelineSegment.start r)),
      (''end'', dump_opt JStr (TimelineSegment.end' r)),
      (''classification'', dump_opt dump_Classification (classification r)),
      (''visual_analysis'', dump_opt dump_VisualAnalysis (visual_analysis r)),
      (''audio_analysis'', dump_opt dump_AudioAnalysis (audio_analysis r)),
      (''text_extraction_ocr'', dump_opt dump_TextExtractionOCR (text_extraction_ocr r)),
      (''engagement_mechanics'', dump_opt dump_EngagementMechanics (engagement_mechanics r)),
      (''ir_reconstruction'', dump_opt dump_IRReconstruction (ir_reconstruction r))]"

definition dump_ExtractedAction :: "ExtractedAction \<Rightarrow> json" where
  "dump_ExtractedAction r = JDict
     [(''action'', JStr (ExtractedAction.action r)),
      (''timestamp'', JStr (timestamp r))]"

definition dump_ExtractedEntities :: "ExtractedEntities \<Rightarrow> json" where
  "dump_ExtractedEntities r = JDict
     [(''actions_detected'', JList (map dump_ExtractedAction (actions_detected r))),
      (''key_objects'', dump_strs (key_objects r)),
      (''referenced_links'', dump_strs (referenced_links r))]"

definition model_dump :: "AnalysisResult \<Rightarrow> json" where
  "model_dump r = JDict
     [(''file_info'', dump_opt dump_FileInfo (file_info r)),
      (''global_analysis'', dump_opt dump_GlobalAnalysis (global_analysis r)),
      (''global_virality'', dump_opt dump_GlobalViralityAnalysis (global_virality r)),
      (''timeline_segments'', JList (map dump_TimelineSegment (timeline_segments r))),
      (''extracted_entities'', dump_opt dump_ExtractedEntities (extracted_entities r))]"


section \<open>What is assumed of the libraries\<close>

text \<open>
  Two facts about \<^verbatim>\<open>json.loads\<close>: a text it accepts is accepted, with the same value,
  once the white space that \<^verbatim>\<open>str.strip\<close> or \<^verbatim>\<open>str.rstrip\<close> removes is gone; and such
  a text, trimmed, is not empty and neither begins nor ends with a backtick (a JSON
  document begins and ends with a bracket, a brace, a quote, a digit or a letter).
\<close>

definition loads_regular :: "decoder \<Rightarrow> bool" where
  "loads_regular loads \<longleftrightarrow>
     (\<forall>s v. loads s = Inr v \<longrightarrow>
        loads (py_strip s) = Inr v \<and> loads (py_rstrip s) = Inr v \<and>
        py_strip s \<noteq> [] \<and> hd (py_strip s) \<noteq> CHR ''`'' \<and> last (py_strip s) \<noteq> CHR ''`'')"

text \<open>
  One fact about pydantic: an \<^verbatim>\<open>int\<close>, \<^verbatim>\<open>float\<close> or \<^verbatim>\<open>bool\<close> field takes a value of
  its own type as it is.
\<close>

definition takes_own_type :: "builtins \<Rightarrow> bool" where
  "takes_own_type L \<longleftrightarrow>
     (\<forall>n. lax_int L (JInt n) = Some n) \<and>
     (\<forall>f. lax_float L (JFloat f) = Some f) \<and>
     (\<forall>b. lax_bool L (JBool b) = Some b)"


section \<open>One instance of the libraries, for the closed examples\<close>

text \<open>
  The theorems below hold for every decoder and every \<open>builtins\<close>.  Their closed examples
  need one of each: a decoder that accepts exactly five JSON documents, surrounded by the
  white space JSON allows, and conversions that take a value of the field's own type only.
  No example applies \<open>str_other\<close>.
\<close>

definition json_space :: "char \<Rightarrow> bool" where
  "json_space c \<longleftrightarrow> c \<in> {CHR '' '', CHR 0x09, CHR 0x0A, CHR 0x0D}"

definition literal_loads :: decoder where
  "literal_loads s =
     (let t = dropWhile json_space (rev (dropWhile json_space (rev s))) in
      if t = ''null'' then Inr JNull
      else if t = ''true'' then Inr (JBool True)
      else if t = ''false'' then Inr (JBool False)
      else if t = ''[]'' then Inr (JList [])
      else if t = ''{}'' then Inr (JDict [])
      else Inl JSONDecodeError)"

definition strict_builtins :: builtins where
  "strict_builtins =
     \<lparr>str_other = (\<lambda>v. []),
      lax_int = (\<lambda>v. case v of JInt n \<Rightarrow> Some n | _ \<Rightarrow> None),
      lax_float = (\<lambda>v. case v of JFloat f \<Rightarrow> Some f | _ \<Rightarrow> None),
      lax_bool = (\<lambda>v. case v of JBool b \<Rightarrow> Some b | _ \<Rightarrow> None)\<rparr>"




section \<open>The words of the specification\<close>

text \<open>The empty report: every field at its default.\<close>

definition empty_report :: AnalysisResult where
  "empty_report =
     \<lparr>file_info = None, global_analysis = None, global_virality = None,
      timeline_segments = [], extracted_entities = None\<rparr>"

text \<open>A zero-padded field of two decimal digits: the tens, then the units.\<close>

definition two_digits :: "int \<Rightarrow> string" where
  "two_digits k = [digit_char (nat k div 10), digit_char (nat k mod 10)]"

text \<open>A mapping, as opposed to every other JSON value.\<close>

definition is_dict :: "json \<Rightarrow> bool" where
  "is_dict v = (case v of JDict d \<Rightarrow> True | _ \<Rightarrow> False)"



section \<open>Trimming and searching\<close>

lemma backtick_not_space: "\<not> py_isspace CHR ''`''"
  by (simp add: py_isspace_def)

lemma dropWhile_all_prefix: "\<forall>c\<in>set ws. P c \<Longrightarrow> dropWhile P (ws @ ys) = dropWhile P ys"
  by (induction ws) auto

lemma dropWhile_append_nonempty:
  "dropWhile P xs \<noteq> [] \<Longrightarrow> dropWhile P (xs @ ys) = dropWhile P xs @ ys"
  by (induction xs) auto

lemma last_dropWhile: "dropWhile P xs \<noteq> [] \<Longrightarrow> last (dropWhile P xs) = last xs"
  by (induction xs) (auto split: if_splits)

lemma takeWhile_until: "c \<notin> set a \<Longrightarrow> takeWhile (\<lambda>x. x \<noteq> c) (a @ c # b) = a"
  by (induction a) auto

lemma rstrip_append_keep:
  assumes "t \<noteq> []" "\<not> py_isspace (last t)" "\<forall>c\<in>set ws. py_isspace c"
  shows "py_rstrip (a @ t @ ws) = a @ t"
proof -
  have "dropWhile py_isspace (rev ws @ rev t @ rev a) = dropWhile py_isspace (rev t @ rev a)"
    using assms(3) by (simp add: dropWhile_all_prefix)
  also have "\<dots> = rev t @ rev a"
    using assms(1,2) by (cases "rev t") (auto simp: last_rev simp flip: hd_rev)
  finally show ?thesis by (simp add: py_rstrip_def)
qed

lemma lstrip_append_keep:
  assumes "t \<noteq> []" "\<not> py_isspace (hd t)" "\<forall>c\<in>set ws. py_isspace c"
  shows "py_lstrip (ws @ t @ b) = t @ b"
  using assms by (cases t) (auto simp: py_lstrip_def dropWhile_all_prefix)

lemma strip_append_keep:
  assumes "t \<noteq> []" "\<not> py_isspace (hd t)" "\<not> py_isspace (last t)"
    "\<forall>c\<in>set ws1. py_isspace c" "\<forall>c\<in>set ws2. py_isspace c"
  shows "py_strip (ws1 @ t @ ws2) = t"
  using rstrip_append_keep[OF assms(1,3,5), of ws1] lstrip_append_keep[OF assms(1,2,4), of "[]"]
  by (simp add: py_strip_def)

lemma rstrip_ws: "\<forall>c\<in>set ws. py_isspace c \<Longrightarrow> py_rstrip (s @ ws) = py_rstrip s"
  by (simp add: py_rstrip_def dropWhile_all_prefix)

lemma lstrip_ws: "\<forall>c\<in>set ws. py_isspace c \<Longrightarrow> py_lstrip (ws @ s) = py_lstrip s"
  by (simp add: py_lstrip_def dropWhile_all_prefix)

lemma rstrip_prepend: "py_rstrip s \<noteq> [] \<Longrightarrow> py_rstrip (a @ s) = a @ py_rstrip s"
  by (simp add: py_rstrip_def dropWhile_append_nonempty)

lemma rstrip_idem: "py_rstrip (py_rstrip s) = py_rstrip s"
  by (simp add: py_rstrip_def)

lemma strip_rstrip_facts:
  assumes "py_strip s \<noteq> []"
  shows "py_rstrip s \<noteq> []" and "last (py_rstrip s) = last (py_strip s)"
  using assms by (auto simp: py_strip_def py_lstrip_def last_dropWhile)

lemma rstrip_last_not_space: "py_rstrip s \<noteq> [] \<Longrightarrow> \<not> py_isspace (last (py_rstrip s))"
  unfolding py_rstrip_def
  by (metis hd_dropWhile last_rev rev_is_Nil_conv)

lemma rstrip_strip: "py_rstrip (py_strip s) = py_strip s"
proof (cases "py_strip s = []")
  case True
  then show ?thesis by (simp add: py_rstrip_def)
next
  case False
  then have "\<not> py_isspace (last (py_strip s))"
    using strip_rstrip_facts[OF False] rstrip_last_not_space[of s] by simp
  then show ?thesis
    using rstrip_append_keep[OF False, of "[]" "[]"] by simp
qed

lemma strip_surrounded:
  assumes "py_strip s \<noteq> []" "\<forall>c\<in>set ws1. py_isspace c" "\<forall>c\<in>set ws2. py_isspace c"
  shows "py_strip (ws1 @ s @ ws2) = py_strip s"
proof -
  have "py_rstrip (ws1 @ s @ ws2) = ws1 @ py_rstrip s"
    using rstrip_ws[OF assms(3), of "ws1 @ s"]
      rstrip_prepend[OF strip_rstrip_facts(1)[OF assms(1)], of ws1]
    by simp
  then show ?thesis
    using lstrip_ws[OF assms(2)] by (simp add: py_strip_def)
qed

lemma find_first_newline:
  assumes "NL \<notin> set a"
  shows "py_find (a @ NL # b) NL = int (length a)"
  using assms by (simp add: py_find_def takeWhile_until)

lemma drop_after_find:
  assumes "NL \<notin> set a"
  shows "drop (nat (py_find (a @ NL # b) NL + 1)) (a @ NL # b) = b"
    and "py_find (a @ NL # b) NL \<noteq> - 1"
  using find_first_newline[OF assms, of b] by (simp_all add: nat_add_distrib)

lemma startswith_hd: "startswith s (c # p) \<Longrightarrow> hd s = c"
  by (cases s) (auto simp: startswith_def)

lemma endswith_last: "endswith s p \<Longrightarrow> p \<noteq> [] \<Longrightarrow> last s = last p"
  unfolding endswith_def
  by (metis append_take_drop_id last_appendR)


section \<open>What is handed to the decoder\<close>

lemma fences_unfenced:
  assumes "py_strip s \<noteq> []" "hd (py_strip s) \<noteq> CHR ''`''"
    "\<forall>c\<in>set ws1. py_isspace c" "\<forall>c\<in>set ws2. py_isspace c"
  shows "strip_fences (ws1 @ s @ ws2) = py_strip s"
proof -
  have "\<not> startswith (py_strip s) ''```''"
    using startswith_hd assms(2) by blast
  then show ?thesis
    by (simp add: strip_fences_def strip_surrounded[OF assms(1,3,4)])
qed

lemma strip_fences_first_line:
  assumes "py_strip text = a @ NL # b" "startswith (a @ NL # b) ''```''" "NL \<notin> set a"
  shows "strip_fences text =
     (if endswith (py_rstrip b) ''```'' then take (length (py_rstrip b) - 3) (py_rstrip b) else b)"
  using assms(2) drop_after_find[OF assms(3), of b]
  by (simp add: strip_fences_def Let_def assms(1))

lemma strip_fences_one_line:
  assumes "startswith (py_strip text) ''```''" "NL \<notin> set (py_strip text)"
  shows "strip_fences text =
     (if endswith (py_strip text) ''```''
      then take (length (py_strip text) - 3) (py_strip text) else py_strip text)"
  using assms by (simp add: strip_fences_def Let_def py_find_def rstrip_strip)

lemma fences_closed:
  assumes "NL \<notin> set tag" "\<forall>c\<in>set ws1. py_isspace c" "\<forall>c\<in>set ws2. py_isspace c"
  shows "strip_fences (ws1 @ ''```'' @ tag @ [NL] @ content @ ''```'' @ ws2) = content"
proof -
  let ?t = "''```'' @ tag @ [NL] @ content @ ''```''"
  have "py_strip (ws1 @ ?t @ ws2) = ?t"
    by (rule strip_append_keep) (use assms in \<open>simp_all add: backtick_not_space\<close>)
  then have strip: "py_strip (ws1 @ ''```'' @ tag @ [NL] @ content @ ''```'' @ ws2)
      = (''```'' @ tag) @ NL # (content @ ''```'')"
    by simp
  have nl: "NL \<notin> set (''```'' @ tag)"
    using assms(1) by (simp add: NL_def)
  have rs: "py_rstrip (content @ ''```'') = content @ ''```''"
    using rstrip_append_keep[of "''```''" "[]" content] by (simp add: backtick_not_space)
  have sw: "startswith ((''```'' @ tag) @ NL # (content @ ''```'')) ''```''"
    by (simp add: startswith_def)
  have "strip_fences (ws1 @ ''```'' @ tag @ [NL] @ content @ ''```'' @ ws2) = content"
    by (simp only: strip_fences_first_line[OF strip sw nl] rs) (simp add: endswith_def)
  then show ?thesis .
qed

lemma fences_open:
  assumes "NL \<notin> set tag" "\<forall>c\<in>set ws1. py_isspace c" "\<forall>c\<in>set ws2. py_isspace c"
    "py_strip content \<noteq> []" "last (py_strip content) \<noteq> CHR ''`''"
  shows "strip_fences (ws1 @ ''```'' @ tag @ [NL] @ content @ ws2) = py_rstrip content"
proof -
  let ?c = "py_rstrip content"
  let ?F = "''```'' @ tag @ [NL]"
  have c: "?c \<noteq> []" "last ?c \<noteq> CHR ''`''"
    using strip_rstrip_facts[OF assms(4)] assms(5) by simp_all
  have "py_rstrip ((ws1 @ ?F @ content) @ ws2) = py_rstrip (ws1 @ ?F @ content)"
    by (rule rstrip_ws) (rule assms(3))
  also have "\<dots> = (ws1 @ ?F) @ ?c"
    using rstrip_prepend[OF c(1), of "ws1 @ ?F"] by simp
  finally have r: "py_rstrip (ws1 @ ?F @ content @ ws2) = ws1 @ ?F @ ?c" by simp
  have strip: "py_strip (ws1 @ ?F @ content @ ws2) = (''```'' @ tag) @ NL # ?c"
    unfolding py_strip_def r
    using lstrip_append_keep[of ?F ws1 ?c] assms(2) by (simp add: backtick_not_space)
  have nl: "NL \<notin> set (''```'' @ tag)"
    using assms(1) by (simp add: NL_def)
  have sw: "startswith ((''```'' @ tag) @ NL # ?c) ''```''"
    by (simp add: startswith_def)
  have ew: "\<not> endswith ?c ''```''"
    using endswith_last[of ?c "''```''"] c(2) by auto
  have "strip_fences (ws1 @ ?F @ content @ ws2) = ?c"
    using ew by (simp only: strip_fences_first_line[OF strip sw nl] rstrip_idem if_False)
  then show ?thesis by simp
qed

lemma parse_json_safe_eq: "parse_json_safe loads text = parse_json_from_model_text loads text"
  by (simp add: parse_json_safe_def parse_json_from_model_text_def)

lemma parse_accepts: "loads (strip_fences s) = Inr v \<Longrightarrow> parse_json_from_model_text loads s = Inr v"
  by (simp add: parse_json_from_model_text_def)

lemma parse_rejects:
  "loads (strip_fences s) = Inl JSONDecodeError \<Longrightarrow>
   parse_json_from_model_text loads s = Inr (error_envelope (strip_fences s))"
  by (simp add: parse_json_from_model_text_def)







section \<open>The decoder of the examples\<close>

lemma json_space_is_space: "json_space c \<Longrightarrow> py_isspace c"
  by (auto simp: json_space_def py_isspace_def)

lemma trim_decompose:
  assumes "dropWhile P (rev (dropWhile P (rev s))) = t"
  shows "\<exists>a b. s = a @ t @ b \<and> (\<forall>c\<in>set a. P c) \<and> (\<forall>c\<in>set b. P c)"
proof -
  let ?r = "dropWhile P (rev s)"
  have "rev s = takeWhile P (rev s) @ ?r" by simp
  then have s: "s = rev ?r @ rev (takeWhile P (rev s))"
    by (metis rev_append rev_rev_ident)
  have r: "rev ?r = takeWhile P (rev ?r) @ t"
    using assms by (metis takeWhile_dropWhile_id)
  have "s = takeWhile P (rev ?r) @ t @ rev (takeWhile P (rev s))"
    using s r by (metis append.assoc)
  moreover have "\<forall>c\<in>set (takeWhile P (rev ?r)). P c"
    by (auto dest: set_takeWhileD)
  moreover have "\<forall>c\<in>set (rev (takeWhile P (rev s))). P c"
    by (auto dest: set_takeWhileD)
  ultimately show ?thesis by blast
qed

lemma trim_keep:
  assumes "t \<noteq> []" "\<not> P (hd t)" "\<not> P (last t)" "\<forall>c\<in>set a. P c" "\<forall>c\<in>set b. P c"
  shows "dropWhile P (rev (dropWhile P (rev (a @ t @ b)))) = t"
proof -
  have "dropWhile P (rev b @ rev t @ rev a) = dropWhile P (rev t @ rev a)"
    using assms(5) by (simp add: dropWhile_all_prefix)
  also have "\<dots> = rev t @ rev a"
    using assms(1,3) by (cases "rev t") (auto simp: last_rev simp flip: hd_rev)
  finally have "dropWhile P (rev (dropWhile P (rev (a @ t @ b)))) = dropWhile P (a @ t)"
    by simp
  also have "\<dots> = t"
    using assms(1,2,4) by (cases t) (auto simp: dropWhile_all_prefix)
  finally show ?thesis .
qed

lemma literal_loads_regular: "loads_regular literal_loads"
  unfolding loads_regular_def
proof (intro allI impI)
  fix s v
  assume ok: "literal_loads s = Inr v"
  define t where "t = dropWhile json_space (rev (dropWhile json_space (rev s)))"
  have tok: "t \<in> {''null'', ''true'', ''false'', ''[]'', ''{}''}"
    using ok unfolding literal_loads_def t_def[symmetric] Let_def
    by (auto split: if_splits)
  obtain a b where s: "s = a @ t @ b" and a: "\<forall>c\<in>set a. json_space c" and b: "\<forall>c\<in>set b. json_space c"
    using trim_decompose[OF t_def[symmetric]] by blast
  have shape: "t \<noteq> []" "\<not> py_isspace (hd t)" "\<not> py_isspace (last t)"
      "\<not> json_space (hd t)" "\<not> json_space (last t)" "hd t \<noteq> CHR ''`''" "last t \<noteq> CHR ''`''"
    using tok by (auto simp: py_isspace_def json_space_def)
  have pa: "\<forall>c\<in>set a. py_isspace c" and pb: "\<forall>c\<in>set b. py_isspace c"
    using a b json_space_is_space by blast+
  have strip: "py_strip s = t"
    unfolding s by (rule strip_append_keep[OF shape(1,2,3) pa pb])
  have rstrip: "py_rstrip s = a @ t"
    unfolding s by (rule rstrip_append_keep[OF shape(1,3) pb])
  have same: "literal_loads u = literal_loads s"
    if "dropWhile json_space (rev (dropWhile json_space (rev u))) = t" for u
    using that by (simp add: literal_loads_def t_def)
  have t1: "dropWhile json_space (rev (dropWhile json_space (rev t))) = t"
    using trim_keep[OF shape(1,4,5), of "[]" "[]"] by simp
  have t2: "dropWhile json_space (rev (dropWhile json_space (rev (a @ t)))) = t"
    using trim_keep[OF shape(1,4,5) a, of "[]"] by simp
  show "literal_loads (py_strip s) = Inr v \<and> literal_loads (py_rstrip s) = Inr v \<and>
        py_strip s \<noteq> [] \<and> hd (py_strip s) \<noteq> CHR ''`'' \<and> last (py_strip s) \<noteq> CHR ''`''"
    unfolding strip rstrip using same[OF t1] same[OF t2] ok shape by simp
qed

section \<open>Validation: one field at a time\<close>

lemma ap_Valid_iff: "ap f x = Valid y \<longleftrightarrow> (\<exists>g a. f = Valid g \<and> x = Valid a \<and> y = g a)"
  by (cases f; cases x) auto

lemma field_present: "map_of d k = Some v \<Longrightarrow> field d k dflt validate = validate v"
  by (simp add: field_def)

lemma field_absent: "map_of d k = None \<Longrightarrow> field d k dflt validate = Valid dflt"
  by (simp add: field_def)

lemma v_optional_null: "v_optional inner JNull = Valid None"
  by (simp add: v_optional_def)

lemma v_optional_str: "v_optional v_str (JStr s) = Valid (Some s)"
  by (simp add: v_optional_def v_str_def)

lemma before_total: "before (\<lambda>v. Inr (f v)) inner v = inner (f v)"
  by (simp add: before_def)

lemma collect_strs: "collect (map v_str (map JStr xs)) = Valid xs"
  by (induction xs) (simp_all add: v_str_def)

lemma collect_strs_comp: "collect (map (v_str \<circ> JStr) xs) = Valid xs"
  using collect_strs[of xs] by simp

lemma collect_dumped:
  assumes "\<And>x. x \<in> set xs \<Longrightarrow> validate (dump x) = Valid x"
  shows "collect (map validate (map dump xs)) = Valid xs"
  using assms by (induction xs) simp_all

lemma collect_Valid_all:
  "collect (map validate xs) = Valid ys \<Longrightarrow> \<forall>y\<in>set ys. \<exists>x. validate x = Valid y"
proof (induction xs arbitrary: ys)
  case Nil
  then show ?case by simp
next
  case (Cons x xs)
  then show ?case
    by (auto simp: ap_Valid_iff)
qed

lemma convert_time_to_string_shape:
  assumes "convert_time_to_string v = Inr v'" "v \<noteq> JNull"
  shows "\<exists>s. v' = JStr s"
  using assms by (auto simp: convert_time_to_string_def split: json.splits sum.splits)

lemma before_convert_Valid:
  assumes "before convert_time_to_string (v_optional v_str) v = Valid x"
  shows "(v = JNull \<and> x = None) \<or> (\<exists>s. v \<noteq> JNull \<and> convert_time_to_string v = Inr (JStr s) \<and> x = Some s)"
proof (cases "convert_time_to_string v")
  case (Inl e)
  then show ?thesis using assms by (cases e) (simp_all add: before_def)
next
  case (Inr v')
  show ?thesis
  proof (cases "v = JNull")
    case True
    then show ?thesis
      using assms by (simp add: before_def convert_time_to_string_def v_optional_null)
  next
    case False
    then obtain s where "v' = JStr s"
      using convert_time_to_string_shape[OF Inr] by blast
    then show ?thesis
      using assms Inr False by (simp add: before_def v_optional_str)
  qed
qed


section \<open>Validation: the segment\<close>

lemma coerce_time_range_fields:
  "segment_id (coerce_time_range s) = segment_id s"
  "TimelineSegment.start (coerce_time_range s) = TimelineSegment.start s"
  "TimelineSegment.end' (coerce_time_range s) = TimelineSegment.end' s"
  "text_extraction_ocr (coerce_time_range s) = text_extraction_ocr s"
  by (simp_all add: coerce_time_range_def)

lemma coerce_time_range_idem: "coerce_time_range (coerce_time_range s) = coerce_time_range s"
  by (simp add: coerce_time_range_def)

lemma ap_ValidE:
  assumes "ap f x = Valid y"
  obtains g a where "f = Valid g" "x = Valid a" "y = g a"
  using assms by (auto simp: ap_Valid_iff)

lemma segment_Valid:
  assumes "validate_TimelineSegment L (JDict d) = Valid r"
  obtains sid tr st en cl va aa ocr em ir where
    "r = coerce_time_range
           \<lparr>segment_id = sid, time_range = tr, start = st, end' = en, classification = cl,
            visual_analysis = va, audio_analysis = aa, text_extraction_ocr = ocr,
            engagement_mechanics = em, ir_reconstruction = ir\<rparr>"
    and "field d ''segment_id'' None
           (before (\<lambda>v. Inr (coerce_segment_id L v)) (v_optional v_str)) = Valid sid"
    and "field d ''time_range'' None (v_optional validate_TimeRange) = Valid tr"
    and "field d ''start'' None (before convert_time_to_string (v_optional v_str)) = Valid st"
    and "field d ''end'' None (before convert_time_to_string (v_optional v_str)) = Valid en"
    and "field d ''text_extraction_ocr'' None
           (before (\<lambda>v. Inr (coerce_text_extraction_ocr v))
              (v_optional validate_TextExtractionOCR)) = Valid ocr"
proof -
  show thesis
    using assms unfolding validate_TimelineSegment_def v_model_def after_def
    by (simp, elim ap_ValidE, simp add: TimelineSegment.make_def) (rule that; assumption)
qed

lemma TimeRange_Valid:
  assumes "validate_TimeRange tr = Valid t"
  shows "\<exists>dt. tr = JDict dt \<and> map_of dt ''start'' = Some (JStr (TimeRange.start t))
           \<and> map_of dt ''end'' = Some (JStr (TimeRange.end' t))"
  using assms unfolding validate_TimeRange_def v_model_def required_def v_str_def
  by (auto simp: ap_Valid_iff TimeRange.make_def split: json.splits option.splits)

lemma virality_Valid:
  assumes "validate_GlobalViralityAnalysis L (JDict d) = Valid r"
  shows "field d ''target_audience'' None
           (before (\<lambda>v. Inr (coerce_target_audience L v)) (v_optional v_str))
         = Valid (target_audience r)"
  using assms unfolding validate_GlobalViralityAnalysis_def v_model_def
  by (simp, elim ap_ValidE) (simp add: GlobalViralityAnalysis.make_def)


section \<open>Decimal digits\<close>

lemma digit_char_0: "digit_char 0 = CHR ''0''"
  by code_simp

lemma digit_chars:
  "digit_char (Suc 0) = CHR ''1''" "digit_char 1 = CHR ''1''" "digit_char 2 = CHR ''2''" "digit_char 3 = CHR ''3''"
  "digit_char 4 = CHR ''4''" "digit_char 5 = CHR ''5''" "digit_char 6 = CHR ''6''"
  "digit_char 7 = CHR ''7''" "digit_char 8 = CHR ''8''" "digit_char 9 = CHR ''9''"
  by code_simp+

lemma digits_small: "n < 10 \<Longrightarrow> digits n = [digit_char n]"
  by simp

lemma digits_two: "10 \<le> n \<Longrightarrow> n < 100 \<Longrightarrow> digits n = [digit_char (n div 10), digit_char (n mod 10)]"
  by (subst digits.simps) simp

lemma length_digits: "1 \<le> length (digits n)"
  by (subst digits.simps) simp

lemma fmt_02d_two_digits: "0 \<le> k \<Longrightarrow> k < 100 \<Longrightarrow> fmt_02d k = two_digits k"
  by (cases "nat k < 10")
     (simp_all add: fmt_02d_def two_digits_def digits_small digits_two digit_char_0 del: digits.simps)

lemma fmt_02d_length: "2 \<le> length (fmt_02d k)"
  using length_digits[of "nat \<bar>k\<bar>"] by (simp add: fmt_02d_def Let_def del: digits.simps)

lemma minutes_seconds_range:
  "0 \<le> (n mod 3600) div 60" "(n mod 3600) div 60 < 100" "0 \<le> n mod 60" "n mod 60 < (100::int)"
proof -
  have m: "0 \<le> n mod 3600" "n mod 3600 < 3600"
    by simp_all
  have d: "n mod 3600 = 60 * ((n mod 3600) div 60) + (n mod 3600) mod 60"
    by simp
  have r: "0 \<le> (n mod 3600) mod 60" "(n mod 3600) mod 60 < 60"
    by simp_all
  show "0 \<le> (n mod 3600) div 60" "(n mod 3600) div 60 < 100"
    using m d r by linarith+
  have s: "0 \<le> n mod 60" "n mod 60 < 60"
    by simp_all
  show "0 \<le> n mod 60" "n mod 60 < 100"
    using s by linarith+
qed

lemma time_string_short:
  assumes "n < 3600"
  shows "time_string n = two_digits ((n mod 3600) div 60) @ '':'' @ two_digits (n mod 60)"
proof -
  have h: "\<not> n div 3600 > 0"
    using assms by (simp add: pos_imp_zdiv_pos_iff)
  show ?thesis
    using h by (simp add: time_string_def Let_def fmt_02d_two_digits minutes_seconds_range)
qed

lemma time_string_long:
  assumes "3600 \<le> n"
  shows "time_string n = fmt_02d (n div 3600) @ '':'' @ two_digits ((n mod 3600) div 60)
           @ '':'' @ two_digits (n mod 60)"
proof -
  have h: "n div 3600 > 0"
    using assms by (simp add: pos_imp_zdiv_pos_iff)
  show ?thesis
    using h by (simp add: time_string_def Let_def fmt_02d_two_digits minutes_seconds_range)
qed

lemma hours_two_digits:
  assumes "3600 \<le> n" "n < 360000"
  shows "fmt_02d (n div 3600) = two_digits (n div 3600)"
proof -
  have "0 \<le> n div 3600"
    using assms by (simp add: pos_imp_zdiv_nonneg_iff)
  moreover have "n div 3600 < 100"
  proof -
    have "n = 3600 * (n div 3600) + n mod 3600" "0 \<le> n mod 3600"
      by simp_all
    then show ?thesis
      using assms(2) by linarith
  qed
  ultimately show ?thesis
    by (rule fmt_02d_two_digits)
qed




section \<open>Validating what was dumped\<close>

lemma v_optional_dump_opt:
  assumes "\<And>y. x = Some y \<Longrightarrow> inner (dump y) = Valid y" and "\<And>y. dump y \<noteq> JNull"
  shows "v_optional inner (dump_opt dump x) = Valid x"
  using assms by (cases x) (simp_all add: v_optional_def dump_opt_def)

lemma opt_str_dumped: "v_optional v_str (dump_opt JStr x) = Valid x"
  by (rule v_optional_dump_opt) (simp_all add: v_str_def)

lemma opt_int_dumped: "takes_own_type L \<Longrightarrow> v_optional (v_int L) (dump_opt JInt x) = Valid x"
  by (rule v_optional_dump_opt) (simp_all add: v_int_def takes_own_type_def)

lemma opt_float_dumped: "takes_own_type L \<Longrightarrow> v_optional (v_float L) (dump_opt JFloat x) = Valid x"
  by (rule v_optional_dump_opt) (simp_all add: v_float_def takes_own_type_def)

lemma bool_dumped: "takes_own_type L \<Longrightarrow> v_bool L (JBool b) = Valid b"
  by (simp add: v_bool_def takes_own_type_def)

lemma strs_dumped: "v_list v_str (dump_strs xs) = Valid xs"
  by (simp add: v_list_def dump_strs_def collect_strs_comp)

lemma list_dumped:
  assumes "\<And>x. validate (dump x) = Valid x"
  shows "v_list validate (JList (map dump xs)) = Valid xs"
  unfolding v_list_def using collect_dumped[of xs validate dump] assms by simp

lemma dumps_not_null:
  "dump_TechnicalSpecs r1 \<noteq> JNull" "dump_FileInfo r2 \<noteq> JNull"
  "dump_GlobalAnalysis r3 \<noteq> JNull" "dump_TimeRange r4 \<noteq> JNull"
  "dump_Classification r5 \<noteq> JNull" "dump_VisualAnalysis r6 \<noteq> JNull"
  "dump_AudioAnalysis r7 \<noteq> JNull" "dump_TextExtractionOCR r8 \<noteq> JNull"
  "dump_EngagementMechanics r9 \<noteq> JNull" "dump_IRReconstruction r10 \<noteq> JNull"
  "dump_GlobalViralityAnalysis r11 \<noteq> JNull" "dump_ExtractedEntities r12 \<noteq> JNull"
  by (simp_all add: dump_TechnicalSpecs_def dump_FileInfo_def dump_GlobalAnalysis_def
      dump_TimeRange_def dump_Classification_def dump_VisualAnalysis_def dump_AudioAnalysis_def
      dump_TextExtractionOCR_def dump_EngagementMechanics_def dump_IRReconstruction_def
      dump_GlobalViralityAnalysis_def dump_ExtractedEntities_def)

lemma TechnicalSpecs_dumped:
  "takes_own_type L \<Longrightarrow> validate_TechnicalSpecs L (dump_TechnicalSpecs r) = Valid r"
  by (simp add: validate_TechnicalSpecs_def dump_TechnicalSpecs_def v_model_def field_def
      opt_str_dumped opt_int_dumped opt_float_dumped TechnicalSpecs.make_def)

lemma FileInfo_dumped:
  assumes "takes_own_type L"
  shows "validate_FileInfo L (dump_FileInfo r) = Valid r"
proof -
  have "v_optional (validate_TechnicalSpecs L) (dump_opt dump_TechnicalSpecs (technical_specs r))
          = Valid (technical_specs r)"
    by (rule v_optional_dump_opt) (simp_all add: TechnicalSpecs_dumped[OF assms] dumps_not_null)
  then show ?thesis
    by (simp add: validate_FileInfo_def dump_FileInfo_def v_model_def field_def
        opt_str_dumped opt_float_dumped[OF assms] FileInfo.make_def)
qed

lemma GlobalAnalysis_dumped: "validate_GlobalAnalysis (dump_GlobalAnalysis r) = Valid r"
  by (simp add: validate_GlobalAnalysis_def dump_GlobalAnalysis_def v_model_def field_def
      opt_str_dumped strs_dumped GlobalAnalysis.make_def)

lemma TimeRange_dumped: "validate_TimeRange (dump_TimeRange r) = Valid r"
  by (simp add: validate_TimeRange_def dump_TimeRange_def v_model_def required_def v_str_def
      TimeRange.make_def)

lemma Classification_dumped: "validate_Classification (dump_Classification r) = Valid r"
  by (simp add: validate_Classification_def dump_Classification_def v_model_def field_def
      opt_str_dumped Classification.make_def)

lemma VisualSubject_dumped: "validate_VisualSubject (dump_VisualSubject r) = Valid r"
  by (simp add: validate_VisualSubject_def dump_VisualSubject_def v_model_def field_def
      opt_str_dumped strs_dumped VisualSubject.make_def)

lemma VisualAnalysis_dumped: "validate_VisualAnalysis (dump_VisualAnalysis r) = Valid r"
  by (simp add: validate_VisualAnalysis_def dump_VisualAnalysis_def v_model_def field_def
      opt_str_dumped list_dumped[of validate_VisualSubject, OF VisualSubject_dumped]
      VisualAnalysis.make_def)

lemma AudioAnalysis_dumped: "validate_AudioAnalysis (dump_AudioAnalysis r) = Valid r"
  by (simp add: validate_AudioAnalysis_def dump_AudioAnalysis_def v_model_def field_def
      opt_str_dumped AudioAnalysis.make_def)

lemma TextExtractionOCR_dumped: "validate_TextExtractionOCR (dump_TextExtractionOCR r) = Valid r"
  by (simp add: validate_TextExtractionOCR_def dump_TextExtractionOCR_def v_model_def field_def
      opt_str_dumped strs_dumped TextExtractionOCR.make_def)

lemma EngagementMechanics_dumped:
  "takes_own_type L \<Longrightarrow> validate_EngagementMechanics L (dump_EngagementMechanics r) = Valid r"
  by (simp add: validate_EngagementMechanics_def dump_EngagementMechanics_def v_model_def
      field_def tactic_key_def opt_str_dumped bool_dumped EngagementMechanics.make_def)

lemma IRReconstruction_dumped: "validate_IRReconstruction (dump_IRReconstruction r) = Valid r"
  by (simp add: validate_IRReconstruction_def dump_IRReconstruction_def v_model_def field_def
      opt_str_dumped IRReconstruction.make_def)

lemma coerce_target_audience_dumped:
  "coerce_target_audience L (dump_opt JStr x) = dump_opt JStr x"
  by (cases x) (simp_all add: coerce_target_audience_def dump_opt_def)

lemma GlobalViralityAnalysis_dumped:
  "takes_own_type L \<Longrightarrow>
   validate_GlobalViralityAnalysis L (dump_GlobalViralityAnalysis r) = Valid r"
  by (simp add: validate_GlobalViralityAnalysis_def dump_GlobalViralityAnalysis_def v_model_def
      field_def before_total coerce_target_audience_dumped opt_str_dumped opt_int_dumped
      GlobalViralityAnalysis.make_def)

lemma ExtractedAction_dumped: "validate_ExtractedAction (dump_ExtractedAction r) = Valid r"
  by (simp add: validate_ExtractedAction_def dump_ExtractedAction_def v_model_def required_def
      v_str_def ExtractedAction.make_def)

lemma ExtractedEntities_dumped: "validate_ExtractedEntities (dump_ExtractedEntities r) = Valid r"
  by (simp add: validate_ExtractedEntities_def dump_ExtractedEntities_def v_model_def field_def
      strs_dumped list_dumped[of validate_ExtractedAction, OF ExtractedAction_dumped]
      ExtractedEntities.make_def)

lemma coerce_segment_id_dumped: "coerce_segment_id L (dump_opt JStr x) = dump_opt JStr x"
  by (cases x) (simp_all add: coerce_segment_id_def dump_opt_def py_str_def)

lemma convert_time_to_string_dumped:
  "convert_time_to_string (dump_opt JStr x) = Inr (dump_opt JStr x)"
  by (cases x) (simp_all add: convert_time_to_string_def dump_opt_def)

lemma coerce_text_extraction_ocr_dumped:
  "coerce_text_extraction_ocr (dump_opt dump_TextExtractionOCR x)
     = dump_opt dump_TextExtractionOCR x"
  by (cases x)
     (simp_all add: coerce_text_extraction_ocr_def dump_opt_def dump_TextExtractionOCR_def)

lemma segment_fields_dumped:
  assumes "takes_own_type L"
  shows "v_optional validate_TimeRange (dump_opt dump_TimeRange a) = Valid a"
    and "v_optional validate_Classification (dump_opt dump_Classification b) = Valid b"
    and "v_optional validate_VisualAnalysis (dump_opt dump_VisualAnalysis c) = Valid c"
    and "v_optional validate_AudioAnalysis (dump_opt dump_AudioAnalysis e) = Valid e"
    and "v_optional validate_TextExtractionOCR (dump_opt dump_TextExtractionOCR f) = Valid f"
    and "v_optional (validate_EngagementMechanics L) (dump_opt dump_EngagementMechanics g)
           = Valid g"
    and "v_optional validate_IRReconstruction (dump_opt dump_IRReconstruction h) = Valid h"
  by (rule v_optional_dump_opt;
      simp add: TimeRange_dumped Classification_dumped VisualAnalysis_dumped AudioAnalysis_dumped
        TextExtractionOCR_dumped EngagementMechanics_dumped[OF assms] IRReconstruction_dumped
        dumps_not_null)+

lemma TimelineSegment_dumped:
  assumes "takes_own_type L"
  shows "validate_TimelineSegment L (dump_TimelineSegment s) = Valid (coerce_time_range s)"
  by (cases s)
     (simp add: validate_TimelineSegment_def dump_TimelineSegment_def v_model_def after_def
      field_def before_total before_def coerce_segment_id_dumped convert_time_to_string_dumped
      coerce_text_extraction_ocr_dumped opt_str_dumped segment_fields_dumped[OF assms]
      TimelineSegment.make_def)

lemma TimelineSegment_normal:
  assumes "validate_TimelineSegment L x = Valid s"
  shows "coerce_time_range s = s"
proof -
  obtain d where "x = JDict d"
    using assms by (cases x) (simp_all add: validate_TimelineSegment_def v_model_def)
  then show ?thesis
    using assms by (auto elim!: segment_Valid simp: coerce_time_range_idem)
qed

lemma TimelineSegment_again:
  assumes "takes_own_type L" "validate_TimelineSegment L x = Valid s"
  shows "validate_TimelineSegment L (dump_TimelineSegment s) = Valid s"
  using TimelineSegment_dumped[OF assms(1), of s] TimelineSegment_normal[OF assms(2)] by simp

lemma report_fields_dumped:
  assumes "takes_own_type L"
  shows "v_optional (validate_FileInfo L) (dump_opt dump_FileInfo a) = Valid a"
    and "v_optional validate_GlobalAnalysis (dump_opt dump_GlobalAnalysis b) = Valid b"
    and "v_optional (validate_GlobalViralityAnalysis L) (dump_opt dump_GlobalViralityAnalysis c)
           = Valid c"
    and "v_optional validate_ExtractedEntities (dump_opt dump_ExtractedEntities e) = Valid e"
  by (rule v_optional_dump_opt;
      simp add: FileInfo_dumped[OF assms] GlobalAnalysis_dumped
        GlobalViralityAnalysis_dumped[OF assms] ExtractedEntities_dumped dumps_not_null)+

lemma segments_dumped:
  assumes "takes_own_type L"
  shows "v_list (validate_TimelineSegment L) (JList (map dump_TimelineSegment ss))
           = Valid (map coerce_time_range ss)"
proof -
  have "collect (map (validate_TimelineSegment L) (map dump_TimelineSegment ss))
          = Valid (map coerce_time_range ss)"
    by (induction ss) (simp_all add: TimelineSegment_dumped[OF assms])
  then show ?thesis
    by (simp add: v_list_def)
qed

lemma AnalysisResult_dumped:
  assumes "takes_own_type L"
  shows "validate_AnalysisResult L (model_dump r)
           = Valid (r\<lparr>timeline_segments := map coerce_time_range (timeline_segments r)\<rparr>)"
  by (simp add: validate_AnalysisResult_def model_dump_def v_model_def field_def
      report_fields_dumped[OF assms] segments_dumped[OF assms] AnalysisResult.make_def)

lemma segments_Valid_normal:
  assumes "field d ''timeline_segments'' [] (v_list (validate_TimelineSegment L)) = Valid ss"
  shows "map coerce_time_range ss = ss"
proof (cases "map_of d ''timeline_segments''")
  case None
  then show ?thesis using assms by (simp add: field_def)
next
  case (Some v)
  then have "v_list (validate_TimelineSegment L) v = Valid ss"
    using assms by (simp add: field_def)
  then obtain xs where "collect (map (validate_TimelineSegment L) xs) = Valid ss"
    by (cases v) (simp_all add: v_list_def)
  then have "\<forall>s\<in>set ss. \<exists>x. validate_TimelineSegment L x = Valid s"
    by (rule collect_Valid_all)
  then have "\<forall>s\<in>set ss. coerce_time_range s = s"
    using TimelineSegment_normal by blast
  then show ?thesis
    by (simp add: map_idI)
qed

lemma AnalysisResult_normal:
  assumes "validate_AnalysisResult L x = Valid r"
  shows "map coerce_time_range (timeline_segments r) = timeline_segments r"
proof -
  obtain d where x: "x = JDict d"
    using assms by (cases x) (simp_all add: validate_AnalysisResult_def v_model_def)
  have "field d ''timeline_segments'' [] (v_list (validate_TimelineSegment L))
          = Valid (timeline_segments r)"
    using assms unfolding x validate_AnalysisResult_def v_model_def
    by (simp, elim ap_ValidE) (simp add: AnalysisResult.make_def)
  then show ?thesis
    by (rule segments_Valid_normal)
qed

lemma takes_own_type_strict: "takes_own_type strict_builtins"
  by (simp add: takes_own_type_def strict_builtins_def)

section \<open>The raw-text extractor: results\<close>




text \<open>
  C3.  Let \<open>content\<close> be a text the decoder accepts with value \<open>v\<close>, let \<open>tag\<close> be free of
  newlines and let \<open>ws1\<close> and \<open>ws2\<close> be white space.  Then both functions return \<open>v\<close> for
  the content alone, for the content after a fence line, and for the content between a
  fence line and a closing fence, each with white space around it.
\<close>

theorem extract_json_valid:
  assumes "loads_regular loads" and "loads content = Inr v"
    and "NL \<notin> set tag"
    and "\<forall>c\<in>set ws1. py_isspace c" and "\<forall>c\<in>set ws2. py_isspace c"
  shows "parse_json_from_model_text loads (ws1 @ content @ ws2) = Inr v
       \<and> parse_json_from_model_text loads (ws1 @ ''```'' @ tag @ [NL] @ content @ ws2) = Inr v
       \<and> parse_json_from_model_text loads
            (ws1 @ ''```'' @ tag @ [NL] @ content @ ''```'' @ ws2) = Inr v
       \<and> parse_json_safe loads (ws1 @ content @ ws2) = Inr v
       \<and> parse_json_safe loads (ws1 @ ''```'' @ tag @ [NL] @ content @ ws2) = Inr v
       \<and> parse_json_safe loads (ws1 @ ''```'' @ tag @ [NL] @ content @ ''```'' @ ws2) = Inr v"
proof -
  have reg: "loads (py_strip content) = Inr v" "loads (py_rstrip content) = Inr v"
      "py_strip content \<noteq> []" "hd (py_strip content) \<noteq> CHR ''`''"
      "last (py_strip content) \<noteq> CHR ''`''"
    using assms(1,2) unfolding loads_regular_def by blast+
  have 1: "parse_json_from_model_text loads (ws1 @ content @ ws2) = Inr v"
    by (rule parse_accepts) (simp add: fences_unfenced[OF reg(3,4) assms(4,5)] reg(1))
  have 2: "parse_json_from_model_text loads (ws1 @ ''```'' @ tag @ [NL] @ content @ ws2) = Inr v"
    by (rule parse_accepts) (simp only: fences_open[OF assms(3,4,5) reg(3,5)] reg(2))
  have 3: "parse_json_from_model_text loads
            (ws1 @ ''```'' @ tag @ [NL] @ content @ ''```'' @ ws2) = Inr v"
    by (rule parse_accepts) (simp only: fences_closed[OF assms(3,4,5)] assms(2))
  show ?thesis
    using 1 2 3 by (simp only: parse_json_safe_eq)
qed

theorem extract_json_valid_witness:
  "loads_regular literal_loads \<and> literal_loads (''{}'' @ [NL]) = Inr (JDict [])
   \<and> NL \<notin> set ''json'' \<and> py_isspace CHR '' '' \<and> py_isspace NL
   \<and> parse_json_from_model_text literal_loads
        ('' '' @ ''```'' @ ''json'' @ [NL] @ (''{}'' @ [NL]) @ ''```'' @ [NL]) = Inr (JDict [])
   \<and> parse_json_safe literal_loads ('' '' @ ''```'' @ ''json'' @ [NL] @ (''{}'' @ [NL]) @ [NL])
        = Inr (JDict [])"
proof -
  have h2: "literal_loads (''{}'' @ [NL]) = Inr (JDict [])"
    by (simp add: literal_loads_def json_space_def NL_def)
  have h3: "NL \<notin> set ''json''"
    by (simp add: NL_def)
  have h4: "\<forall>c\<in>set '' ''. py_isspace c"
    by (simp add: py_isspace_def)
  have h5: "\<forall>c\<in>set [NL]. py_isspace c"
    by (simp add: py_isspace_def NL_def)
  show ?thesis
    using extract_json_valid[OF literal_loads_regular h2 h3 h4 h5] literal_loads_regular h2 h3 h4 h5
    by simp
qed

text \<open>
  C10, as the claim states it, fails.  For the input of three backticks the text handed
  to the decoder is empty, so it carries no backticks; and for the claim's own one-line
  example the closing fence is stripped.
\<close>

theorem one_line_fence_counterexample:
  "startswith (py_strip ''```'') ''```'' \<and> NL \<notin> set ''```''
   \<and> strip_fences ''```'' = []
   \<and> \<not> startswith (strip_fences ''```'') ''```''
   \<and> NL \<notin> set ''```json {\"a\": 1}```''
   \<and> strip_fences ''```json {\"a\": 1}```'' = ''```json {\"a\": 1}''
   \<and> strip_fences ''```json {\"a\": 1}```'' \<noteq> py_strip ''```json {\"a\": 1}```''"
  by (simp add: strip_fences_def py_strip_def py_lstrip_def py_rstrip_def py_isspace_def
      startswith_def endswith_def py_find_def NL_def)

text \<open>
  C10, amended.  When the trimmed input begins with three backticks and holds no newline,
  the first line is kept and only a closing fence is dropped: the decoder receives the
  trimmed input without its last three characters when it ends with three backticks, and
  the trimmed input otherwise.  Unless the trimmed input ends with three backticks and is
  shorter than six characters, that text still begins with three backticks; and when the
  decoder rejects it, the result is the error envelope around it.
\<close>

theorem one_line_fence_kept:
  assumes "startswith (py_strip s) ''```''" and "NL \<notin> set (py_strip s)"
  shows "strip_fences s =
           (if endswith (py_strip s) ''```''
            then take (length (py_strip s) - 3) (py_strip s) else py_strip s)
       \<and> (6 \<le> length (py_strip s) \<or> \<not> endswith (py_strip s) ''```''
            \<longrightarrow> startswith (strip_fences s) ''```'')
       \<and> (loads (strip_fences s) = Inl JSONDecodeError
            \<longrightarrow> parse_json_from_model_text loads s = Inr (error_envelope (strip_fences s))
              \<and> parse_json_safe loads s = Inr (error_envelope (strip_fences s)))"
proof -
  let ?t = "py_strip s"
  have eq: "strip_fences s = (if endswith ?t ''```'' then take (length ?t - 3) ?t else ?t)"
    by (rule strip_fences_one_line[OF assms])
  have keep: "startswith (strip_fences s) ''```''"
    if "6 \<le> length ?t \<or> \<not> endswith ?t ''```''"
  proof (cases "endswith ?t ''```''")
    case False
    then show ?thesis using eq assms(1) by simp
  next
    case True
    then have len: "6 \<le> length ?t" using that by simp
    have "take (length ''```'') (take (length ?t - 3) ?t) = take (length ''```'') ?t"
      using len by (simp add: min_absorb1)
    then have "startswith (take (length ?t - 3) ?t) ''```''"
      using assms(1) unfolding startswith_def by (rule trans)
    then show ?thesis
      using eq True by simp
  qed
  show ?thesis
    using eq keep parse_rejects[of loads s] by (simp add: parse_json_safe_eq)
qed

theorem one_line_fence_kept_witness:
  "startswith (py_strip ''```json {\"a\": 1}```'') ''```''
   \<and> NL \<notin> set (py_strip ''```json {\"a\": 1}```'')
   \<and> strip_fences ''```json {\"a\": 1}```'' = ''```json {\"a\": 1}''
   \<and> literal_loads (strip_fences ''```json {\"a\": 1}```'') = Inl JSONDecodeError
   \<and> parse_json_from_model_text literal_loads ''```json {\"a\": 1}```''
       = Inr (JDict [(''error'', JStr ''Invalid JSON output''),
                     (''raw'', JStr ''```json {\"a\": 1}'')])"
proof -
  have t: "py_strip ''```json {\"a\": 1}```'' = ''```json {\"a\": 1}```''"
    by (simp add: py_strip_def py_lstrip_def py_rstrip_def py_isspace_def)
  have h1: "startswith (py_strip ''```json {\"a\": 1}```'') ''```''"
    by (simp add: t startswith_def)
  have h2: "NL \<notin> set (py_strip ''```json {\"a\": 1}```'')"
    by (simp add: t NL_def)
  have f: "strip_fences ''```json {\"a\": 1}```'' = ''```json {\"a\": 1}''"
    using one_line_fence_kept[OF h1 h2, of literal_loads] by (simp add: t endswith_def)
  have r: "literal_loads (strip_fences ''```json {\"a\": 1}```'') = Inl JSONDecodeError"
    by (simp add: f literal_loads_def json_space_def)
  show ?thesis
    using one_line_fence_kept[OF h1 h2, of literal_loads] h1 h2 f r
    by (simp add: error_envelope_def)
qed

section \<open>The schema coercer: results\<close>

text \<open>
  C1, as the claim states it, fails: the error envelope that the extractor returns for the
  text \<^verbatim>\<open>not json at all\<close> is a dict, none of its keys names a field, and
  \<^verbatim>\<open>model_validate\<close> returns the report with every field at its default.
\<close>

theorem envelope_validates_counterexample:
  "parse_json_from_model_text literal_loads ''not json at all''
     = Inr (error_envelope ''not json at all'')
   \<and> model_validate strict_builtins (error_envelope ''not json at all'') = Inr empty_report
   \<and> model_validate strict_builtins (error_envelope ''not json at all'') \<noteq> Inl ValidationError"
proof -
  have f: "strip_fences ''not json at all'' = ''not json at all''"
    by (simp add: strip_fences_def py_strip_def py_lstrip_def py_rstrip_def py_isspace_def
        startswith_def)
  have l: "literal_loads ''not json at all'' = Inl JSONDecodeError"
    by (simp add: literal_loads_def json_space_def)
  have p: "parse_json_from_model_text literal_loads ''not json at all''
      = Inr (error_envelope ''not json at all'')"
    using parse_rejects[of literal_loads "''not json at all''"] by (simp add: f l)
  have v: "model_validate strict_builtins (error_envelope ''not json at all'') = Inr empty_report"
    by (simp add: model_validate_def validate_AnalysisResult_def v_model_def error_envelope_def
        field_def AnalysisResult.make_def empty_report_def)
  show ?thesis
    using p v by simp
qed

text \<open>
  C1, amended.  Every value that is not a dict (\<^verbatim>\<open>None\<close>, a bool, a number, a string, a
  list) makes \<^verbatim>\<open>model_validate\<close> raise \<^verbatim>\<open>ValidationError\<close>.  The error envelope is a
  dict and validates to the empty report.
\<close>

theorem non_mapping_rejected:
  "(\<not> is_dict v \<longrightarrow> model_validate L v = Inl ValidationError)
   \<and> model_validate L (error_envelope raw) = Inr empty_report"
proof -
  have "model_validate L v = Inl ValidationError" if "\<not> is_dict v"
    using that
    by (cases v) (simp_all add: is_dict_def model_validate_def validate_AnalysisResult_def v_model_def)
  moreover have "model_validate L (error_envelope raw) = Inr empty_report"
    by (simp add: model_validate_def validate_AnalysisResult_def v_model_def error_envelope_def
        field_def AnalysisResult.make_def empty_report_def)
  ultimately show ?thesis by blast
qed

theorem non_mapping_rejected_witness:
  "\<not> is_dict (JList [JInt 1]) \<and> model_validate strict_builtins (JList [JInt 1]) = Inl ValidationError
   \<and> model_validate strict_builtins (JStr ''not json at all'') = Inl ValidationError
   \<and> model_validate strict_builtins (JInt 3) = Inl ValidationError
   \<and> model_validate strict_builtins (error_envelope []) = Inr empty_report"
  using non_mapping_rejected[of "JList [JInt 1]" strict_builtins "[]"]
    non_mapping_rejected[of "JStr ''not json at all''" strict_builtins "[]"]
    non_mapping_rejected[of "JInt 3" strict_builtins "[]"]
  by (simp add: is_dict_def)

text \<open>
  C4, as the claim states it, fails for the floats that have no integer part: NaN makes
  the validator raise \<^verbatim>\<open>ValueError\<close>, which fails the validation of the segment, and an
  infinity makes it raise \<^verbatim>\<open>OverflowError\<close>, which leaves \<^verbatim>\<open>model_validate\<close>.
\<close>

theorem seconds_nan_counterexample:
  "convert_time_to_string (JFloat NaN) = Inl ValueError
   \<and> convert_time_to_string (JFloat PosInf) = Inl OverflowError
   \<and> validate_TimelineSegment strict_builtins (JDict [(''start'', JFloat NaN)]) = Invalid
   \<and> validate_TimelineSegment strict_builtins (JDict [(''start'', JFloat PosInf)])
       = Raised OverflowError"
  by (simp add: convert_time_to_string_def validate_TimelineSegment_def v_model_def after_def
      field_def before_def)

text \<open>
  C4, amended.  An int, and a float that is finite, supplied as \<^verbatim>\<open>start\<close> or \<^verbatim>\<open>end\<close> of
  a segment is converted to the time string of its integer part \<open>n\<close>: two two-digit fields
  \<^verbatim>\<open>MM:SS\<close> when \<open>n < 3600\<close>, and \<^verbatim>\<open>HH:MM:SS\<close> when \<open>3600 \<le> n\<close>, where the hours have at
  least two digits and exactly two below 360000 seconds.  A string is passed through.
  The validated segment holds the converted string.
\<close>

theorem seconds_become_time_strings:
  "convert_time_to_string (JInt n) = Inr (JStr (time_string n))
   \<and> (\<exists>k. int_of_float (Finite m e) = Inr k
         \<and> convert_time_to_string (JFloat (Finite m e)) = Inr (JStr (time_string k)))
   \<and> convert_time_to_string (JStr s) = Inr (JStr s)
   \<and> (n < 3600 \<longrightarrow>
         time_string n = two_digits ((n mod 3600) div 60) @ '':'' @ two_digits (n mod 60))
   \<and> (3600 \<le> n \<longrightarrow>
         time_string n = fmt_02d (n div 3600) @ '':'' @ two_digits ((n mod 3600) div 60)
                           @ '':'' @ two_digits (n mod 60)
         \<and> 2 \<le> length (fmt_02d (n div 3600))
         \<and> (n < 360000 \<longrightarrow> fmt_02d (n div 3600) = two_digits (n div 3600)))
   \<and> (validate_TimelineSegment L (JDict d) = Valid r \<longrightarrow>
         (map_of d ''start'' = Some v \<and> convert_time_to_string v = Inr (JStr t)
            \<longrightarrow> TimelineSegment.start r = Some t)
         \<and> (map_of d ''end'' = Some v \<and> convert_time_to_string v = Inr (JStr t)
            \<longrightarrow> TimelineSegment.end' r = Some t))"
proof -
  have 1: "convert_time_to_string (JInt n) = Inr (JStr (time_string n))"
    by (simp add: convert_time_to_string_def)
  have 2: "\<exists>k. int_of_float (Finite m e) = Inr k
         \<and> convert_time_to_string (JFloat (Finite m e)) = Inr (JStr (time_string k))"
    by (simp add: convert_time_to_string_def)
  have 3: "convert_time_to_string (JStr s) = Inr (JStr s)"
    by (simp add: convert_time_to_string_def)
  have 6: "TimelineSegment.start r = Some t"
    if "validate_TimelineSegment L (JDict d) = Valid r" "map_of d ''start'' = Some v"
      "convert_time_to_string v = Inr (JStr t)"
    using that(1)
  proof (rule segment_Valid)
    fix sid tr st en cl va aa ocr em ir
    assume r: "r = coerce_time_range
           \<lparr>segment_id = sid, time_range = tr, start = st, end' = en, classification = cl,
            visual_analysis = va, audio_analysis = aa, text_extraction_ocr = ocr,
            engagement_mechanics = em, ir_reconstruction = ir\<rparr>"
      and "field d ''start'' None (before convert_time_to_string (v_optional v_str)) = Valid st"
    then have "st = Some t"
      using that(2,3) by (simp add: field_present before_def v_optional_str)
    then show ?thesis
      by (simp add: r coerce_time_range_fields)
  qed
  have 7: "TimelineSegment.end' r = Some t"
    if "validate_TimelineSegment L (JDict d) = Valid r" "map_of d ''end'' = Some v"
      "convert_time_to_string v = Inr (JStr t)"
    using that(1)
  proof (rule segment_Valid)
    fix sid tr st en cl va aa ocr em ir
    assume r: "r = coerce_time_range
           \<lparr>segment_id = sid, time_range = tr, start = st, end' = en, classification = cl,
            visual_analysis = va, audio_analysis = aa, text_extraction_ocr = ocr,
            engagement_mechanics = em, ir_reconstruction = ir\<rparr>"
      and "field d ''end'' None (before convert_time_to_string (v_optional v_str)) = Valid en"
    then have "en = Some t"
      using that(2,3) by (simp add: field_present before_def v_optional_str)
    then show ?thesis
      by (simp add: r coerce_time_range_fields)
  qed
  show ?thesis
    using 1 2 3 6 7 time_string_short[of n] time_string_long[of n] hours_two_digits[of n]
      fmt_02d_length[of "n div 3600"]
    by blast
qed

theorem seconds_become_time_strings_witness:
  "convert_time_to_string (JInt 125) = Inr (JStr ''02:05'')
   \<and> convert_time_to_string (JInt 3725) = Inr (JStr ''01:02:05'')
   \<and> convert_time_to_string (JFloat (Finite 251 (- 1))) = Inr (JStr ''02:05'')
   \<and> convert_time_to_string (JStr ''soon'') = Inr (JStr ''soon'')
   \<and> validate_TimelineSegment strict_builtins (JDict [(''start'', JInt 3725)])
       = Valid \<lparr>segment_id = None, time_range = None, start = Some ''01:02:05'', end' = None,
                classification = None, visual_analysis = None, audio_analysis = None,
                text_extraction_ocr = None, engagement_mechanics = None,
                ir_reconstruction = None\<rparr>
   \<and> TimelineSegment.start
        \<lparr>segment_id = None, time_range = None, start = Some ''01:02:05'', end' = None,
         classification = None, visual_analysis = None, audio_analysis = None,
         text_extraction_ocr = None, engagement_mechanics = None,
         ir_reconstruction = None\<rparr> = Some ''01:02:05''"
proof -
  have t1: "time_string 125 = ''02:05''"
    using seconds_become_time_strings[of 125 0 0 "[]" strict_builtins "[]"]
    by (simp add: two_digits_def digit_char_0 digit_chars)
  have t2: "time_string 3725 = ''01:02:05''"
    using seconds_become_time_strings[of 3725 0 0 "[]" strict_builtins "[]"]
    by (simp add: two_digits_def digit_char_0 digit_chars)
  have c: "convert_time_to_string (JInt 3725) = Inr (JStr ''01:02:05'')"
    by (simp add: convert_time_to_string_def t2)
  have v: "validate_TimelineSegment strict_builtins (JDict [(''start'', JInt 3725)])
       = Valid \<lparr>segment_id = None, time_range = None, start = Some ''01:02:05'', end' = None,
                classification = None, visual_analysis = None, audio_analysis = None,
                text_extraction_ocr = None, engagement_mechanics = None,
                ir_reconstruction = None\<rparr>"
    by (simp add: validate_TimelineSegment_def v_model_def after_def field_def before_def c
        v_optional_str TimelineSegment.make_def coerce_time_range_def)
  show ?thesis
    using seconds_become_time_strings[of 125 251 "- 1" "''soon''" strict_builtins
        "[(''start'', JInt 3725)]" _ "JInt 3725" "''01:02:05''"] t1 t2 c v
    by (simp add: convert_time_to_string_def)
qed

text \<open>
  C5.  Let a segment validate.  If its \<^verbatim>\<open>time_range\<close> is absent or null and its
  \<^verbatim>\<open>start\<close> and \<^verbatim>\<open>end\<close> are present and not null, the validated \<^verbatim>\<open>time_range\<close> is the
  pair of the two converted values.  If its \<^verbatim>\<open>time_range\<close> is present and not null, it
  is a dict with strings under \<^verbatim>\<open>start\<close> and \<^verbatim>\<open>end\<close>, and the validated \<^verbatim>\<open>time_range\<close>
  is the pair of those strings, whatever the top-level values are.
\<close>

theorem time_range_synthesized_or_kept:
  assumes "validate_TimelineSegment L (JDict d) = Valid r"
  shows "((map_of d ''time_range'' = None \<or> map_of d ''time_range'' = Some JNull)
            \<and> map_of d ''start'' = Some vs \<and> vs \<noteq> JNull
            \<and> map_of d ''end'' = Some ve \<and> ve \<noteq> JNull
          \<longrightarrow> (\<exists>s e. convert_time_to_string vs = Inr (JStr s)
                  \<and> convert_time_to_string ve = Inr (JStr e)
                  \<and> time_range r = Some \<lparr>TimeRange.start = s, TimeRange.end' = e\<rparr>))
       \<and> (map_of d ''time_range'' = Some tr \<and> tr \<noteq> JNull
          \<longrightarrow> (\<exists>dt a b. tr = JDict dt \<and> map_of dt ''start'' = Some (JStr a)
                  \<and> map_of dt ''end'' = Some (JStr b)
                  \<and> time_range r = Some \<lparr>TimeRange.start = a, TimeRange.end' = b\<rparr>))"
  using assms
proof (rule segment_Valid)
  fix sid trv st en cl va aa ocr em ir
  assume r: "r = coerce_time_range
           \<lparr>segment_id = sid, time_range = trv, start = st, end' = en, classification = cl,
            visual_analysis = va, audio_analysis = aa, text_extraction_ocr = ocr,
            engagement_mechanics = em, ir_reconstruction = ir\<rparr>"
    and ftr: "field d ''time_range'' None (v_optional validate_TimeRange) = Valid trv"
    and fst: "field d ''start'' None (before convert_time_to_string (v_optional v_str)) = Valid st"
    and fen: "field d ''end'' None (before convert_time_to_string (v_optional v_str)) = Valid en"
  have synth: "\<exists>s e. convert_time_to_string vs = Inr (JStr s)
                  \<and> convert_time_to_string ve = Inr (JStr e)
                  \<and> time_range r = Some \<lparr>TimeRange.start = s, TimeRange.end' = e\<rparr>"
    if absent: "map_of d ''time_range'' = None \<or> map_of d ''time_range'' = Some JNull"
      and s: "map_of d ''start'' = Some vs" "vs \<noteq> JNull"
      and e: "map_of d ''end'' = Some ve" "ve \<noteq> JNull"
  proof -
    have "trv = None"
      using absent ftr by (auto simp: field_def v_optional_null)
    moreover obtain s' where "convert_time_to_string vs = Inr (JStr s')" "st = Some s'"
      using before_convert_Valid[of vs st] fst s by (auto simp: field_present)
    moreover obtain e' where "convert_time_to_string ve = Inr (JStr e')" "en = Some e'"
      using before_convert_Valid[of ve en] fen e by (auto simp: field_present)
    ultimately show ?thesis
      by (simp add: r coerce_time_range_def)
  qed
  have kept: "\<exists>dt a b. tr = JDict dt \<and> map_of dt ''start'' = Some (JStr a)
                  \<and> map_of dt ''end'' = Some (JStr b)
                  \<and> time_range r = Some \<lparr>TimeRange.start = a, TimeRange.end' = b\<rparr>"
    if "map_of d ''time_range'' = Some tr" "tr \<noteq> JNull"
  proof -
    have "ap (Valid Some) (validate_TimeRange tr) = Valid trv"
      using that ftr by (simp add: field_present v_optional_def)
    then obtain t where t: "validate_TimeRange tr = Valid t" "trv = Some t"
      by (auto simp: ap_Valid_iff)
    have "time_range r = Some t"
      by (simp add: r t(2) coerce_time_range_def)
    moreover have "t = \<lparr>TimeRange.start = TimeRange.start t, TimeRange.end' = TimeRange.end' t\<rparr>"
      by simp
    ultimately show ?thesis
      using TimeRange_Valid[OF t(1)] by metis
  qed
  show ?thesis
    using synth kept by blast
qed

theorem time_range_synthesized_or_kept_witness:
  "validate_TimelineSegment strict_builtins (JDict [(''start'', JInt 125), (''end'', JInt 140)])
     = Valid \<lparr>segment_id = None,
              time_range = Some \<lparr>TimeRange.start = ''02:05'', TimeRange.end' = ''02:20''\<rparr>,
              start = Some ''02:05'', end' = Some ''02:20'',
              classification = None, visual_analysis = None, audio_analysis = None,
              text_extraction_ocr = None, engagement_mechanics = None,
              ir_reconstruction = None\<rparr>
   \<and> convert_time_to_string (JInt 125) = Inr (JStr ''02:05'')
   \<and> convert_time_to_string (JInt 140) = Inr (JStr ''02:20'')
   \<and> (\<exists>r. validate_TimelineSegment strict_builtins
          (JDict [(''time_range'', JDict [(''start'', JStr ''0:01''), (''end'', JStr ''later'')]),
                  (''start'', JInt 125), (''end'', JInt 140)]) = Valid r
        \<and> time_range r = Some \<lparr>TimeRange.start = ''0:01'', TimeRange.end' = ''later''\<rparr>)"
proof -
  have t: "time_string 125 = ''02:05''" "time_string 140 = ''02:20''"
    by (simp_all add: time_string_short two_digits_def digit_char_0 digit_chars)
  have c: "convert_time_to_string (JInt 125) = Inr (JStr ''02:05'')"
      "convert_time_to_string (JInt 140) = Inr (JStr ''02:20'')"
    by (simp_all add: convert_time_to_string_def t)
  let ?d1 = "[(''start'', JInt 125), (''end'', JInt 140)]"
  let ?d2 = "[(''time_range'', JDict [(''start'', JStr ''0:01''), (''end'', JStr ''later'')]),
              (''start'', JInt 125), (''end'', JInt 140)]"
  have v1: "validate_TimelineSegment strict_builtins (JDict ?d1)
     = Valid \<lparr>segment_id = None,
              time_range = Some \<lparr>TimeRange.start = ''02:05'', TimeRange.end' = ''02:20''\<rparr>,
              start = Some ''02:05'', end' = Some ''02:20'',
              classification = None, visual_analysis = None, audio_analysis = None,
              text_extraction_ocr = None, engagement_mechanics = None,
              ir_reconstruction = None\<rparr>"
    by (simp add: validate_TimelineSegment_def v_model_def after_def field_def before_def c
        v_optional_str TimelineSegment.make_def coerce_time_range_def)
  have v2: "validate_TimelineSegment strict_builtins (JDict ?d2)
     = Valid \<lparr>segment_id = None,
              time_range = Some \<lparr>TimeRange.start = ''0:01'', TimeRange.end' = ''later''\<rparr>,
              start = Some ''02:05'', end' = Some ''02:20'',
              classification = None, visual_analysis = None, audio_analysis = None,
              text_extraction_ocr = None, engagement_mechanics = None,
              ir_reconstruction = None\<rparr>"
    by (simp add: validate_TimelineSegment_def v_model_def after_def field_def before_def c
        v_optional_str TimelineSegment.make_def coerce_time_range_def v_optional_def
        validate_TimeRange_def required_def v_str_def TimeRange.make_def)
  have k: "time_range \<lparr>segment_id = None,
              time_range = Some \<lparr>TimeRange.start = ''0:01'', TimeRange.end' = ''later''\<rparr>,
              start = Some ''02:05'', end' = Some ''02:20'',
              classification = None, visual_analysis = None, audio_analysis = None,
              text_extraction_ocr = None, engagement_mechanics = None,
              ir_reconstruction = None\<rparr>
           = Some \<lparr>TimeRange.start = ''0:01'', TimeRange.end' = ''later''\<rparr>"
    using time_range_synthesized_or_kept[OF v2,
        of "JNull" "JNull" "JDict [(''start'', JStr ''0:01''), (''end'', JStr ''later'')]"]
    by simp
  show ?thesis
    using v1 c v2 k time_range_synthesized_or_kept[OF v1, of "JInt 125" "JInt 140" JNull]
    by simp
qed

text \<open>
  C7.  The validator turns a non-empty list of strings into the dict with that list under
  \<^verbatim>\<open>visible_text\<close>, and the empty list into \<^verbatim>\<open>None\<close>.  A segment that validates holds,
  for such an input, the object with exactly that list of strings; for the empty list it
  holds no object.
\<close>

theorem ocr_list_wrapped:
  "coerce_text_extraction_ocr (JList (map JStr xs))
     = (if xs = [] then JNull else JDict [(''visible_text'', JList (map JStr xs))])
   \<and> (validate_TimelineSegment L (JDict d) = Valid r
        \<and> map_of d ''text_extraction_ocr'' = Some (JList (map JStr xs))
      \<longrightarrow> text_extraction_ocr r
            = (if xs = [] then None
               else Some \<lparr>visible_text = xs, programming_language = None\<rparr>))"
proof -
  have c: "coerce_text_extraction_ocr (JList (map JStr xs))
     = (if xs = [] then JNull else JDict [(''visible_text'', JList (map JStr xs))])"
    by (simp add: coerce_text_extraction_ocr_def)
  have "text_extraction_ocr r
            = (if xs = [] then None
               else Some \<lparr>visible_text = xs, programming_language = None\<rparr>)"
    if v: "validate_TimelineSegment L (JDict d) = Valid r"
      and m: "map_of d ''text_extraction_ocr'' = Some (JList (map JStr xs))"
    using v
  proof (rule segment_Valid)
    fix sid trv st en cl va aa ocr em ir
    assume r: "r = coerce_time_range
           \<lparr>segment_id = sid, time_range = trv, start = st, end' = en, classification = cl,
            visual_analysis = va, audio_analysis = aa, text_extraction_ocr = ocr,
            engagement_mechanics = em, ir_reconstruction = ir\<rparr>"
      and f: "field d ''text_extraction_ocr'' None
           (before (\<lambda>v. Inr (coerce_text_extraction_ocr v))
              (v_optional validate_TextExtractionOCR)) = Valid ocr"
    have f': "v_optional validate_TextExtractionOCR
                (coerce_text_extraction_ocr (JList (map JStr xs))) = Valid ocr"
      using f by (simp add: field_present[OF m] before_total)
    have w: "validate_TextExtractionOCR (JDict [(''visible_text'', JList (map JStr xs))])
               = Valid \<lparr>visible_text = xs, programming_language = None\<rparr>"
      by (simp add: validate_TextExtractionOCR_def v_model_def field_def v_list_def
          collect_strs_comp TextExtractionOCR.make_def)
    have "ocr = (if xs = [] then None
               else Some \<lparr>visible_text = xs, programming_language = None\<rparr>)"
      using f' by (simp add: c v_optional_def w split: if_splits)
    then show ?thesis
      by (simp add: r coerce_time_range_fields)
  qed
  then show ?thesis
    using c by blast
qed

theorem ocr_list_wrapped_witness:
  "coerce_text_extraction_ocr (JList (map JStr [''LOGIN'', ''PASSWORD'']))
     = JDict [(''visible_text'', JList [JStr ''LOGIN'', JStr ''PASSWORD''])]
   \<and> coerce_text_extraction_ocr (JList (map JStr [])) = JNull
   \<and> validate_TimelineSegment strict_builtins
        (JDict [(''text_extraction_ocr'', JList (map JStr [''LOGIN'', ''PASSWORD'']))])
     = Valid \<lparr>segment_id = None, time_range = None, start = None, end' = None,
              classification = None, visual_analysis = None, audio_analysis = None,
              text_extraction_ocr =
                Some \<lparr>visible_text = [''LOGIN'', ''PASSWORD''], programming_language = None\<rparr>,
              engagement_mechanics = None, ir_reconstruction = None\<rparr>
   \<and> validate_TimelineSegment strict_builtins (JDict [(''text_extraction_ocr'', JList (map JStr []))])
     = Valid \<lparr>segment_id = None, time_range = None, start = None, end' = None,
              classification = None, visual_analysis = None, audio_analysis = None,
              text_extraction_ocr = None, engagement_mechanics = None,
              ir_reconstruction = None\<rparr>"
proof -
  have c: "coerce_text_extraction_ocr (JList (map JStr [''LOGIN'', ''PASSWORD'']))
     = JDict [(''visible_text'', JList [JStr ''LOGIN'', JStr ''PASSWORD''])]"
      "coerce_text_extraction_ocr (JList (map JStr [])) = JNull"
    using conjunct1[OF ocr_list_wrapped[of "[''LOGIN'', ''PASSWORD'']" strict_builtins "[]"]]
      conjunct1[OF ocr_list_wrapped[of "[]" strict_builtins "[]"]]
    by simp_all
  show ?thesis
    using c
    by (simp add: validate_TimelineSegment_def v_model_def after_def field_def before_def
        v_optional_def TimelineSegment.make_def coerce_time_range_def
        validate_TextExtractionOCR_def v_list_def v_str_def TextExtractionOCR.make_def)
qed

text \<open>
  C8.  The validator joins a list of strings with a comma and a space, and returns a
  string as it is.  A \<^verbatim>\<open>GlobalViralityAnalysis\<close> that validates holds the joined string,
  or the string supplied.
\<close>

theorem target_audience_joined:
  "coerce_target_audience L (JList (map JStr xs)) = JStr (join '', '' xs)
   \<and> coerce_target_audience L (JStr s) = JStr s
   \<and> (validate_GlobalViralityAnalysis L (JDict d) = Valid r \<longrightarrow>
        (map_of d ''target_audience'' = Some (JList (map JStr xs))
           \<longrightarrow> target_audience r = Some (join '', '' xs))
        \<and> (map_of d ''target_audience'' = Some (JStr s) \<longrightarrow> target_audience r = Some s))"
proof -
  have "map (py_str L) (map JStr xs) = xs"
    by (induction xs) (simp_all add: py_str_def)
  then have c: "coerce_target_audience L (JList (map JStr xs)) = JStr (join '', '' xs)"
      "coerce_target_audience L (JStr s) = JStr s"
    by (simp_all add: coerce_target_audience_def)
  have "target_audience r = Some (join '', '' xs)"
    if "validate_GlobalViralityAnalysis L (JDict d) = Valid r"
      "map_of d ''target_audience'' = Some (JList (map JStr xs))"
    using virality_Valid[OF that(1)]
    by (simp add: field_present[OF that(2)] before_total c v_optional_str)
  moreover have "target_audience r = Some s"
    if "validate_GlobalViralityAnalysis L (JDict d) = Valid r"
      "map_of d ''target_audience'' = Some (JStr s)"
    using virality_Valid[OF that(1)]
    by (simp add: field_present[OF that(2)] before_total c v_optional_str)
  ultimately show ?thesis
    using c by blast
qed

theorem target_audience_joined_witness:
  "coerce_target_audience strict_builtins (JList (map JStr [''Gen Z'', ''Tech Enthusiasts'']))
     = JStr ''Gen Z, Tech Enthusiasts''
   \<and> validate_GlobalViralityAnalysis strict_builtins
        (JDict [(''target_audience'', JList (map JStr [''Gen Z'', ''Tech Enthusiasts'']))])
     = Valid \<lparr>virality_score = None, hook_strategy = None,
              target_audience = Some ''Gen Z, Tech Enthusiasts'', share_trigger = None\<rparr>
   \<and> validate_GlobalViralityAnalysis strict_builtins
        (JDict [(''target_audience'', JStr ''Gen Z'')])
     = Valid \<lparr>virality_score = None, hook_strategy = None,
              target_audience = Some ''Gen Z'', share_trigger = None\<rparr>"
proof -
  have c: "coerce_target_audience strict_builtins
             (JList (map JStr [''Gen Z'', ''Tech Enthusiasts''])) = JStr ''Gen Z, Tech Enthusiasts''"
      "coerce_target_audience strict_builtins (JStr ''Gen Z'') = JStr ''Gen Z''"
    using target_audience_joined[of strict_builtins "[''Gen Z'', ''Tech Enthusiasts'']" "''Gen Z''"
        "[]"]
    by simp_all
  show ?thesis
    using c
    by (simp add: validate_GlobalViralityAnalysis_def v_model_def field_def before_def
        v_optional_str GlobalViralityAnalysis.make_def)
qed



text \<open>
  C6.  Let pydantic take a value of a field's own type as it is.  When \<^verbatim>\<open>model_validate\<close>
  returns a report \<open>r\<close> for some input, it returns the same \<open>r\<close> for \<^verbatim>\<open>r.model_dump()\<close>.
  In particular every input of canonical shape, that is the dump of some report, validates,
  and validating the dump of the result gives the result again.
\<close>

theorem revalidation_idempotent:
  assumes "takes_own_type L"
  shows "(model_validate L x = Inr r \<longrightarrow> model_validate L (model_dump r) = Inr r)
       \<and> (\<exists>r'. model_validate L (model_dump r0) = Inr r'
               \<and> model_validate L (model_dump r') = Inr r')"
proof -
  have again: "validate_AnalysisResult L (model_dump r) = Valid r"
    if "validate_AnalysisResult L x = Valid r" for x r
    using AnalysisResult_dumped[OF assms, of r] AnalysisResult_normal[OF that] by simp
  have 1: "model_validate L (model_dump r) = Inr r" if "model_validate L x = Inr r"
  proof -
    have "validate_AnalysisResult L x = Valid r"
      using that by (simp add: model_validate_def split: outcome.splits)
    then show ?thesis
      using again by (simp add: model_validate_def)
  qed
  let ?r' = "r0\<lparr>timeline_segments := map coerce_time_range (timeline_segments r0)\<rparr>"
  have v: "validate_AnalysisResult L (model_dump r0) = Valid ?r'"
    by (rule AnalysisResult_dumped[OF assms])
  have 2: "model_validate L (model_dump r0) = Inr ?r' \<and> model_validate L (model_dump ?r') = Inr ?r'"
    using v again[OF v] by (simp add: model_validate_def)
  show ?thesis
    using 1 2 by blast
qed

text \<open>The end-to-end scenario of the specification, after decoding.\<close>

theorem revalidation_idempotent_witness:
  "takes_own_type strict_builtins
   \<and> model_validate strict_builtins
        (JDict [(''timeline_segments'',
                 JList [JDict [(''segment_id'', JInt 1), (''start'', JInt 65), (''end'', JInt 70)]])])
     = Inr \<lparr>file_info = None, global_analysis = None, global_virality = None,
            timeline_segments =
              [\<lparr>segment_id = Some ''1'',
                time_range = Some \<lparr>TimeRange.start = ''01:05'', TimeRange.end' = ''01:10''\<rparr>,
                start = Some ''01:05'', end' = Some ''01:10'',
                classification = None, visual_analysis = None, audio_analysis = None,
                text_extraction_ocr = None, engagement_mechanics = None,
                ir_reconstruction = None\<rparr>],
            extracted_entities = None\<rparr>
   \<and> model_validate strict_builtins
        (model_dump
           \<lparr>file_info = None, global_analysis = None, global_virality = None,
            timeline_segments =
              [\<lparr>segment_id = Some ''1'',
                time_range = Some \<lparr>TimeRange.start = ''01:05'', TimeRange.end' = ''01:10''\<rparr>,
                start = Some ''01:05'', end' = Some ''01:10'',
                classification = None, visual_analysis = None, audio_analysis = None,
                text_extraction_ocr = None, engagement_mechanics = None,
                ir_reconstruction = None\<rparr>],
            extracted_entities = None\<rparr>)
     = Inr \<lparr>file_info = None, global_analysis = None, global_virality = None,
            timeline_segments =
              [\<lparr>segment_id = Some ''1'',
                time_range = Some \<lparr>TimeRange.start = ''01:05'', TimeRange.end' = ''01:10''\<rparr>,
                start = Some ''01:05'', end' = Some ''01:10'',
                classification = None, visual_analysis = None, audio_analysis = None,
                text_extraction_ocr = None, engagement_mechanics = None,
                ir_reconstruction = None\<rparr>],
            extracted_entities = None\<rparr>"
proof -
  have t: "time_string 65 = ''01:05''" "time_string 70 = ''01:10''"
    by (simp_all add: time_string_short two_digits_def digit_char_0 digit_chars)
  have c: "convert_time_to_string (JInt 65) = Inr (JStr ''01:05'')"
      "convert_time_to_string (JInt 70) = Inr (JStr ''01:10'')"
    by (simp_all add: convert_time_to_string_def t)
  have s: "str_int 1 = ''1''"
    by (simp add: str_int_def digit_chars)
  have seg: "validate_TimelineSegment strict_builtins
        (JDict [(''segment_id'', JInt 1), (''start'', JInt 65), (''end'', JInt 70)])
     = Valid \<lparr>segment_id = Some ''1'',
                time_range = Some \<lparr>TimeRange.start = ''01:05'', TimeRange.end' = ''01:10''\<rparr>,
                start = Some ''01:05'', end' = Some ''01:10'',
                classification = None, visual_analysis = None, audio_analysis = None,
                text_extraction_ocr = None, engagement_mechanics = None,
                ir_reconstruction = None\<rparr>"
    by (simp add: validate_TimelineSegment_def v_model_def after_def field_def before_def c
        coerce_segment_id_def py_str_def s v_optional_str TimelineSegment.make_def
        coerce_time_range_def)
  have v: "model_validate strict_builtins
        (JDict [(''timeline_segments'',
                 JList [JDict [(''segment_id'', JInt 1), (''start'', JInt 65), (''end'', JInt 70)]])])
     = Inr \<lparr>file_info = None, global_analysis = None, global_virality = None,
            timeline_segments =
              [\<lparr>segment_id = Some ''1'',
                time_range = Some \<lparr>TimeRange.start = ''01:05'', TimeRange.end' = ''01:10''\<rparr>,
                start = Some ''01:05'', end' = Some ''01:10'',
                classification = None, visual_analysis = None, audio_analysis = None,
                text_extraction_ocr = None, engagement_mechanics = None,
                ir_reconstruction = None\<rparr>],
            extracted_entities = None\<rparr>"
    by (simp add: model_validate_def validate_AnalysisResult_def v_model_def field_def v_list_def
        seg AnalysisResult.make_def)
  show ?thesis
    using conjunct1[OF revalidation_idempotent[OF takes_own_type_strict], rule_format, OF v]
      takes_own_type_strict v
    by simp
qed

end
